theory Spec2Isabelle
  imports Complex_Main "HOL-Library.Word"
begin


section \<open>Calendar dates\<close>

text \<open>
  The application stores every date as an ISO text \<^verbatim>\<open>YYYY-MM-DD\<close> and compares dates
  either as such texts (\<^verbatim>\<open>v.next_due_date <= ?\<close>) or through SQLite's \<^verbatim>\<open>date()\<close>.
  A date is modelled by its three numeric fields. On well-formed four-digit texts the
  byte-wise text comparison of SQLite is the lexicographic comparison of
  (year, month, day), which is what \<open>date_less\<close> and \<open>date_le\<close> compute.
\<close>

record date =
  year :: int
  month :: nat
  day :: nat

definition leap_year :: "int \<Rightarrow> bool" where
  "leap_year y \<longleftrightarrow> y mod 4 = 0 \<and> (y mod 100 \<noteq> 0 \<or> y mod 400 = 0)"

definition days_in_month :: "int \<Rightarrow> nat \<Rightarrow> nat" where
  "days_in_month y m =
     (if m = 2 then (if leap_year y then 29 else 28)
      else if m = 4 \<or> m = 6 \<or> m = 9 \<or> m = 11 then 30
      else 31)"

definition valid_date :: "date \<Rightarrow> bool" where
  "valid_date d \<longleftrightarrow>
     1 \<le> month d \<and> month d \<le> 12 \<and> 1 \<le> day d \<and> day d \<le> days_in_month (year d) (month d)"

definition date_less :: "date \<Rightarrow> date \<Rightarrow> bool" where
  "date_less a b \<longleftrightarrow>
     year a < year b \<or>
     (year a = year b \<and> (month a < month b \<or> (month a = month b \<and> day a < day b)))"

definition date_le :: "date \<Rightarrow> date \<Rightarrow> bool" where
  "date_le a b \<longleftrightarrow>
     year a < year b \<or>
     (year a = year b \<and> (month a < month b \<or> (month a = month b \<and> day a \<le> day b)))"

text \<open>The day after and the day before a date, and a date \<open>n\<close> days later.\<close>

definition next_day :: "date \<Rightarrow> date" where
  "next_day d =
     (if day d < days_in_month (year d) (month d) then d\<lparr>day := day d + 1\<rparr>
      else if month d < 12 then d\<lparr>month := month d + 1, day := 1\<rparr>
      else d\<lparr>year := year d + 1, month := 1, day := 1\<rparr>)"

definition prev_day :: "date \<Rightarrow> date" where
  "prev_day d =
     (if 1 < day d then d\<lparr>day := day d - 1\<rparr>
      else if 1 < month d
        then d\<lparr>month := month d - 1, day := days_in_month (year d) (month d - 1)\<rparr>
      else d\<lparr>year := year d - 1, month := 12, day := 31\<rparr>)"

primrec add_days :: "nat \<Rightarrow> date \<Rightarrow> date" where
  "add_days 0 d = d"
| "add_days (Suc n) d = next_day (add_days n d)"

primrec sub_days :: "nat \<Rightarrow> date \<Rightarrow> date" where
  "sub_days 0 d = d"
| "sub_days (Suc n) d = prev_day (sub_days n d)"

subsection \<open>JavaScript's Date\<close>

text \<open>
  An instant is a calendar date and the millisecond of that day, in UTC;
  \<^verbatim>\<open>new Date()\<close> is the instant \<open>now\<close> handed to each operation. The same record holds
  a local time, the date and the time of day that a clock of the server's time zone
  shows. The scheduler and the listings are modelled for a server that runs in UTC,
  where the two agree; \<^verbatim>\<open>POST /api/dogs\<close>, whose result depends on the zone, takes the
  zone as a parameter.
\<close>

record instant =
  inst_date :: date
  inst_ms :: nat


text \<open>The instant \<open>k\<close> milliseconds after \<open>t\<close> (before it, for a negative \<open>k\<close>).\<close>

definition plus_ms :: "instant \<Rightarrow> int \<Rightarrow> instant" where
  "plus_ms t k =
     (let total = int (inst_ms t) + k;
          days = total div 86400000
      in \<lparr>inst_date = (if 0 \<le> days then add_days (nat days) (inst_date t)
                        else sub_days (nat (- days)) (inst_date t)),
          inst_ms = nat (total mod 86400000)\<rparr>)"

text \<open>
  A time zone, as ECMAScript's LocalTZA: the offset from UTC in milliseconds that is in
  force at a UTC instant, and the offset that applies to a local time. \<open>LocalTime\<close> and
  \<open>UTC\<close> are the two conversions of the language specification.
\<close>

record zone =
  offset_at_utc :: "instant \<Rightarrow> int"
  offset_at_local :: "instant \<Rightarrow> int"

definition LocalTime :: "zone \<Rightarrow> instant \<Rightarrow> instant" where
  "LocalTime tz t = plus_ms t (offset_at_utc tz t)"

definition UTC :: "zone \<Rightarrow> instant \<Rightarrow> instant" where
  "UTC tz t = plus_ms t (- offset_at_local tz t)"

definition utc_zone :: zone where
  "utc_zone = \<lparr>offset_at_utc = (\<lambda>t. 0), offset_at_local = (\<lambda>t. 0)\<rparr>"

definition instant_less :: "instant \<Rightarrow> instant \<Rightarrow> bool" where
  "instant_less a b \<longleftrightarrow>
     date_less (inst_date a) (inst_date b) \<or>
     (inst_date a = inst_date b \<and> inst_ms a < inst_ms b)"

text \<open>\<^verbatim>\<open>d.toISOString().split('T')[0]\<close>\<close>

definition toISODate :: "instant \<Rightarrow> date" where
  "toISODate t = inst_date t"

text \<open>
  \<^verbatim>\<open>new Date(year, monthIndex, day)\<close> accepts a day past the end of the month and carries
  it into the following months (ECMAScript's MakeDay); the result is midnight, local
  time, of the normalised date. \<open>roll_day\<close> is that carry, for a month number in 1..12
  and a day from 1 on, which is all that \<^verbatim>\<open>getMonth()\<close> and \<^verbatim>\<open>getDate()\<close> deliver. A year
  from 0 to 99 is read as 1900 + year by this constructor.

  \<open>getMonth\<close>, \<open>getDate\<close> and \<open>getFullYear\<close> read the fields of a local time, and
  \<open>new_Date_ymd\<close>, \<open>setFullYear\<close>, \<open>setDate_plus\<close> and \<open>setMonth_plus\<close> compute one: under
  a zone \<open>tz\<close> the source's \<^verbatim>\<open>t.getMonth()\<close> is \<open>getMonth (LocalTime tz t)\<close>, and a local time
  becomes an instant again through \<open>UTC tz\<close>.
\<close>

function roll_day :: "int \<Rightarrow> nat \<Rightarrow> nat \<Rightarrow> date" where
  "roll_day y m d =
     (if d \<le> days_in_month y m then \<lparr>year = y, month = m, day = d\<rparr>
      else if m < 12 then roll_day y (m + 1) (d - days_in_month y m)
      else roll_day (y + 1) 1 (d - days_in_month y m))"
  by pat_completeness auto
termination
  by (relation "measure (\<lambda>(y, m, d). d)") (auto simp: days_in_month_def)

declare roll_day.simps [simp del]

definition getMonth :: "instant \<Rightarrow> nat" where
  "getMonth t = month (inst_date t) - 1"

definition getDate :: "instant \<Rightarrow> nat" where
  "getDate t = day (inst_date t)"

definition getFullYear :: "instant \<Rightarrow> int" where
  "getFullYear t = year (inst_date t)"

definition new_Date_ymd :: "int \<Rightarrow> nat \<Rightarrow> nat \<Rightarrow> instant" where
  "new_Date_ymd y monthIndex d =
     \<lparr>inst_date = roll_day (if 0 \<le> y \<and> y \<le> 99 then 1900 + y else y) (monthIndex + 1) d,
      inst_ms = 0\<rparr>"

text \<open>\<^verbatim>\<open>new Date('YYYY-MM-DD')\<close>: midnight UTC of the date.\<close>

definition new_Date_iso :: "date \<Rightarrow> instant" where
  "new_Date_iso d = \<lparr>inst_date = d, inst_ms = 0\<rparr>"

text \<open>\<^verbatim>\<open>t.setFullYear(y)\<close> keeps month, day and time of day, and normalises again.\<close>

definition setFullYear :: "instant \<Rightarrow> int \<Rightarrow> instant" where
  "setFullYear t y = t\<lparr>inst_date := roll_day y (getMonth t + 1) (getDate t)\<rparr>"

text \<open>\<^verbatim>\<open>t.setDate(t.getDate() + n)\<close>: the same time of day, \<open>n\<close> days later.\<close>

definition setDate_plus :: "instant \<Rightarrow> nat \<Rightarrow> instant" where
  "setDate_plus t n = t\<lparr>inst_date := add_days n (inst_date t)\<rparr>"

section \<open>SQL values\<close>

text \<open>
  A nullable column is an \<open>option\<close>. A comparison with NULL is NULL, \<^verbatim>\<open>AND\<close> is
  three-valued, and a \<^verbatim>\<open>WHERE\<close> clause keeps a row only when its condition is true.
\<close>

definition sql_lt :: "date option \<Rightarrow> date option \<Rightarrow> bool option" where
  "sql_lt a b = (case a of None \<Rightarrow> None
     | Some x \<Rightarrow> (case b of None \<Rightarrow> None | Some y \<Rightarrow> Some (date_less x y)))"

definition sql_le :: "date option \<Rightarrow> date option \<Rightarrow> bool option" where
  "sql_le a b = (case a of None \<Rightarrow> None
     | Some x \<Rightarrow> (case b of None \<Rightarrow> None | Some y \<Rightarrow> Some (date_le x y)))"

definition sql_ge :: "date option \<Rightarrow> date option \<Rightarrow> bool option" where
  "sql_ge a b = sql_le b a"

definition sql_and :: "bool option \<Rightarrow> bool option \<Rightarrow> bool option" where
  "sql_and a b =
     (if a = Some False \<or> b = Some False then Some False
      else if a = Some True \<and> b = Some True then Some True
      else None)"

definition sql_is_not_null :: "'a option \<Rightarrow> bool option" where
  "sql_is_not_null a = Some (a \<noteq> None)"

definition sql_between :: "date option \<Rightarrow> date option \<Rightarrow> date option \<Rightarrow> bool option" where
  "sql_between x lo hi = sql_and (sql_ge x lo) (sql_le x hi)"

definition selected :: "bool option \<Rightarrow> bool" where
  "selected c \<longleftrightarrow> c = Some True"

text \<open>
  \<^verbatim>\<open>date(?, '+' || n || ' days')\<close>. For a negative \<open>n\<close> the modifier text reads
  \<^verbatim>\<open>+-3 days\<close>, which SQLite does not accept: \<^verbatim>\<open>date()\<close> then returns NULL. The last
  date of SQLite is 31 December 9999: \<^verbatim>\<open>date()\<close> returns NULL as well when the days
  added lead past it.
\<close>

primrec sqlite_add_days :: "nat \<Rightarrow> date \<Rightarrow> date option" where
  "sqlite_add_days 0 d = Some d"
| "sqlite_add_days (Suc n) d =
     (case sqlite_add_days n d of
        None \<Rightarrow> None
      | Some e \<Rightarrow> if 9999 < year (next_day e) then None else Some (next_day e))"

definition sqlite_date_plus_days :: "date \<Rightarrow> int \<Rightarrow> date option" where
  "sqlite_date_plus_days d n = (if n < 0 then None else sqlite_add_days (nat n) d)"

section \<open>The record store\<close>

text \<open>
  The tables of \<^verbatim>\<open>initDatabase\<close> that the modelled operations touch, each as the list of
  its rows in insertion order. Free-text columns that no modelled statement reads
  (breed, colour, microchip number, photo, notes of a dog and the like) are left out.
  An id is what \<^verbatim>\<open>uuidv4()\<close> returns; the store carries the supply of ids not handed out
  yet, so that a generated id is always new. A number of a \<^verbatim>\<open>REAL\<close> column is the
  rational it denotes.
\<close>

type_synonym uuid = nat

record dog_row =
  dog_id :: uuid
  dog_user_id :: uuid
  dog_name :: string
  dog_gender :: string
  dog_weight :: "rat option"
  dog_weight_unit :: string
  dog_date_of_birth :: "date option"
  dog_adoption_date :: "date option"

record allergy_row =
  al_id :: uuid
  al_dog_id :: uuid
  allergen :: string
  severity :: string
  al_notes :: "string option"

record condition_row =
  hc_id :: uuid
  hc_dog_id :: uuid
  condition_name :: string
  diagnosed_date :: "date option"
  hc_status :: string
  hc_notes :: "string option"

record weight_row =
  wh_id :: uuid
  wh_dog_id :: uuid
  wh_weight :: rat
  wh_weight_unit :: string
  recorded_date :: date
  wh_notes :: "string option"

record vaccination_row =
  vax_id :: uuid
  vax_dog_id :: uuid
  vaccine_name :: string
  date_administered :: date
  next_due_date :: "date option"
  administered_by :: "string option"
  lot_number :: "string option"
  vax_notes :: "string option"
  reminder_sent :: bool

record event_row =
  ev_id :: uuid
  ev_user_id :: uuid
  ev_dog_id :: "uuid option"
  ev_title :: string
  ev_description :: "string option"
  event_type :: string
  event_date :: date
  is_recurring :: bool
  recurrence_pattern :: "string option"
  reminder_days_before :: int
  is_active :: bool

record medication_row =
  med_id :: uuid
  med_dog_id :: uuid
  med_name :: string
  med_dosage :: "string option"
  med_frequency :: "string option"
  med_start_date :: date
  med_end_date :: "date option"
  med_is_active :: bool

text \<open>\<^verbatim>\<open>created_at\<close> is \<^verbatim>\<open>CURRENT_TIMESTAMP\<close>, the UTC time of the insert in whole seconds.\<close>

record ai_query_row =
  aq_id :: uuid
  aq_user_id :: uuid
  aq_dog_id :: "uuid option"
  aq_query :: string
  aq_response :: string
  aq_created_at :: instant

record database =
  dogs :: "dog_row list"
  dog_allergies :: "allergy_row list"
  dog_health_conditions :: "condition_row list"
  weight_history :: "weight_row list"
  vaccinations :: "vaccination_row list"
  events :: "event_row list"
  medications :: "medication_row list"
  ai_queries :: "ai_query_row list"
  next_uuid :: uuid

definition uuidv4 :: "database \<Rightarrow> uuid \<times> database" where
  "uuidv4 db = (next_uuid db, db\<lparr>next_uuid := Suc (next_uuid db)\<rparr>)"

text \<open>\<^verbatim>\<open>ORDER BY\<close> as an insertion sort under the given order of the sort key.\<close>

fun insort_by :: "('a \<Rightarrow> 'a \<Rightarrow> bool) \<Rightarrow> 'a \<Rightarrow> 'a list \<Rightarrow> 'a list" where
  "insort_by le x [] = [x]"
| "insort_by le x (y # ys) = (if le x y then x # y # ys else y # insort_by le x ys)"

definition order_by :: "('a \<Rightarrow> 'a \<Rightarrow> bool) \<Rightarrow> 'a list \<Rightarrow> 'a list" where
  "order_by le xs = foldr (insort_by le) xs []"

section \<open>The reminder scheduler (scheduler.ts)\<close>

record UpcomingVaccination =
  uv_id :: uuid
  uv_dog_name :: string
  uv_vaccine_name :: string
  uv_next_due_date :: "date option"
  uv_user_id :: uuid

record UpcomingEvent =
  ue_id :: uuid
  ue_title :: string
  ue_event_date :: date
  ue_dog_name :: "string option"
  ue_user_id :: uuid

text \<open>
  The \<^verbatim>\<open>WHERE\<close> clause of \<^verbatim>\<open>checkVaccinationReminders\<close>:
  \<^verbatim>\<open>v.next_due_date <= ? AND v.next_due_date >= ? AND v.reminder_sent = 0\<close>,
  bound to the reminder date and to today. Its first two conjuncts are the window on the
  due date.
\<close>

definition vaccination_window :: "date \<Rightarrow> date \<Rightarrow> date option \<Rightarrow> bool option" where
  "vaccination_window reminderDate today due =
     sql_and (sql_le due (Some reminderDate)) (sql_ge due (Some today))"

definition vaccination_reminder_where :: "date \<Rightarrow> date \<Rightarrow> vaccination_row \<Rightarrow> bool option" where
  "vaccination_reminder_where reminderDate today v =
     sql_and (vaccination_window reminderDate today (next_due_date v))
       (Some (\<not> reminder_sent v))"

text \<open>The rows of \<^verbatim>\<open>vaccinations v JOIN dogs d ON v.dog_id = d.id\<close> that the clause keeps.\<close>

definition upcomingVaccinations :: "date \<Rightarrow> date \<Rightarrow> database \<Rightarrow> UpcomingVaccination list" where
  "upcomingVaccinations reminderDate today db =
     [\<lparr>uv_id = vax_id v, uv_dog_name = dog_name d, uv_vaccine_name = vaccine_name v,
        uv_next_due_date = next_due_date v, uv_user_id = dog_user_id d\<rparr>.
        v \<leftarrow> vaccinations db, d \<leftarrow> dogs db, vax_dog_id v = dog_id d,
        selected (vaccination_reminder_where reminderDate today v)]"

text \<open>\<^verbatim>\<open>UPDATE vaccinations SET reminder_sent = 1 WHERE id = ?\<close>\<close>

definition mark_reminder_sent :: "uuid \<Rightarrow> database \<Rightarrow> database" where
  "mark_reminder_sent i db =
     db\<lparr>vaccinations :=
          map (\<lambda>v. if vax_id v = i then v\<lparr>reminder_sent := True\<rparr> else v) (vaccinations db)\<rparr>"

text \<open>
  \<^verbatim>\<open>checkVaccinationReminders\<close>: the query runs once, then the loop logs one reminder per
  selected row and marks that row's vaccination. The result is the list of reminders
  logged (each stands for its \<^verbatim>\<open>REMINDER:\<close> line) and the store after the loop.
\<close>

definition checkVaccinationReminders ::
    "instant \<Rightarrow> database \<Rightarrow> UpcomingVaccination list \<times> database" where
  "checkVaccinationReminders now db =
     (let today = now;
          reminderDate = setDate_plus today 7;
          upcoming = upcomingVaccinations (toISODate reminderDate) (toISODate today) db
      in (upcoming, foldl (\<lambda>s vax. mark_reminder_sent (uv_id vax) s) db upcoming))"

text \<open>
  The \<^verbatim>\<open>WHERE\<close> clause of \<^verbatim>\<open>checkEventReminders\<close>: \<^verbatim>\<open>e.is_active = 1 AND date(e.event_date)
  BETWEEN date(?) AND date(?, '+' || e.reminder_days_before || ' days')\<close>, both parameters
  bound to today. Its second conjunct is the window on the event date, of as many days
  as the event's lead time.
\<close>

definition event_window :: "date \<Rightarrow> int \<Rightarrow> date \<Rightarrow> bool option" where
  "event_window today days d =
     sql_between (Some d) (Some today) (sqlite_date_plus_days today days)"

definition event_reminder_where :: "date \<Rightarrow> event_row \<Rightarrow> bool option" where
  "event_reminder_where today e =
     sql_and (Some (is_active e))
       (event_window today (reminder_days_before e) (event_date e))"

text \<open>
  \<^verbatim>\<open>events e LEFT JOIN dogs d ON e.dog_id = d.id\<close>: the name of each matching dog, or one
  NULL when the event has no dog or none matches.
\<close>

definition left_join_dog_name :: "event_row \<Rightarrow> dog_row list \<Rightarrow> string option list" where
  "left_join_dog_name e ds =
     (case filter (\<lambda>d. ev_dog_id e = Some (dog_id d)) ds of
        [] \<Rightarrow> [None]
      | m # ms \<Rightarrow> map (\<lambda>d. Some (dog_name d)) (m # ms))"

definition checkEventReminders :: "instant \<Rightarrow> database \<Rightarrow> UpcomingEvent list" where
  "checkEventReminders now db =
     (let today = now
      in [\<lparr>ue_id = ev_id e, ue_title = ev_title e, ue_event_date = event_date e,
            ue_dog_name = n, ue_user_id = ev_user_id e\<rparr>.
            e \<leftarrow> events db, n \<leftarrow> left_join_dog_name e (dogs db),
            selected (event_reminder_where (toISODate today) e)])"

text \<open>
  The daily job registered by \<^verbatim>\<open>initScheduler\<close>: the vaccination check, then the event
  check on the store the first one left.
\<close>

definition daily_job ::
    "instant \<Rightarrow> database \<Rightarrow> (UpcomingVaccination list \<times> UpcomingEvent list) \<times> database" where
  "daily_job now db =
     (let (vs, db1) = checkVaccinationReminders now db;
          es = checkEventReminders now db1
      in ((vs, es), db1))"

text \<open>
  The overdue queries of \<^verbatim>\<open>GET /api/vaccinations/upcoming\<close>,
  \<^verbatim>\<open>GET /api/vaccinations/dog/:dogId\<close> and \<^verbatim>\<open>GET /api/health/summary\<close> share the clause
  \<^verbatim>\<open>next_due_date < ? AND next_due_date IS NOT NULL\<close>, bound to today.
\<close>

definition vaccination_overdue_where :: "date \<Rightarrow> vaccination_row \<Rightarrow> bool option" where
  "vaccination_overdue_where today v =
     sql_and (sql_lt (next_due_date v) (Some today)) (sql_is_not_null (next_due_date v))"

section \<open>The HTTP handlers\<close>

text \<open>
  A handler takes the authenticated caller (\<^verbatim>\<open>req.userId\<close>), the request and the store,
  and returns the response together with the store it leaves. A field of a request body
  is \<open>None\<close> when the request leaves it out. Requests carry well-formed dates.
\<close>

datatype json =
    ErrorJ string
  | MessageJ string
  | DogJ string "dog_row option"
  | DogDetailJ dog_row "allergy_row list" "condition_row list" "weight_row list"
  | VaccinationJ string "vaccination_row option"
  | VaccinationsJ "vaccination_row list" "vaccination_row list" "vaccination_row list" nat
  | UpcomingJ "(vaccination_row \<times> string) list" "(vaccination_row \<times> string) list"
  | EventJ string "event_row option"
  | EventsJ "event_row list"
  | MedicationJ string "medication_row option"
  | AnswerJ string
  | HistoryJ "(ai_query_row \<times> string option) list"

record response =
  status :: nat
  body :: json

text \<open>JavaScript truthiness of an optional text, \<^verbatim>\<open>x || null\<close> and \<^verbatim>\<open>x || 'default'\<close>.\<close>

definition truthy :: "string option \<Rightarrow> bool" where
  "truthy s \<longleftrightarrow> s \<noteq> None \<and> s \<noteq> Some []"

definition or_null :: "string option \<Rightarrow> string option" where
  "or_null s = (if truthy s then s else None)"

definition or_default :: "string option \<Rightarrow> string \<Rightarrow> string" where
  "or_default s d = (case s of None \<Rightarrow> d | Some x \<Rightarrow> if x = [] then d else x)"

text \<open>Truthiness of an optional number: 0 is falsy.\<close>

definition truthy_number :: "rat option \<Rightarrow> bool" where
  "truthy_number n \<longleftrightarrow> n \<noteq> None \<and> n \<noteq> Some 0"

text \<open>\<^verbatim>\<open>COALESCE(?, column)\<close>\<close>

definition coalesce :: "'a option \<Rightarrow> 'a \<Rightarrow> 'a" where
  "coalesce p c = (case p of None \<Rightarrow> c | Some x \<Rightarrow> x)"

definition coalesce_opt :: "'a option \<Rightarrow> 'a option \<Rightarrow> 'a option" where
  "coalesce_opt p c = (case p of None \<Rightarrow> c | Some x \<Rightarrow> Some x)"

text \<open>The first row of a result (\<^verbatim>\<open>.get()\<close>), if any.\<close>

definition first_row :: "'a list \<Rightarrow> 'a option" where
  "first_row xs = (case xs of [] \<Rightarrow> None | x # _ \<Rightarrow> Some x)"

text \<open>\<^verbatim>\<open>SELECT * FROM dogs WHERE id = ? AND user_id = ?\<close>, the ownership check of every router.\<close>

definition owned_dog :: "uuid \<Rightarrow> uuid \<Rightarrow> database \<Rightarrow> dog_row option" where
  "owned_dog i uid db = first_row [d \<leftarrow> dogs db. dog_id d = i \<and> dog_user_id d = uid]"

text \<open>
  The \<^verbatim>\<open>CHECK\<close> constraints of the columns \<^verbatim>\<open>dogs.gender\<close>, \<^verbatim>\<open>dog_allergies.severity\<close>,
  \<^verbatim>\<open>dog_health_conditions.status\<close> and \<^verbatim>\<open>events.event_type\<close>.
\<close>

definition check_gender :: "string \<Rightarrow> bool" where
  "check_gender g \<longleftrightarrow> g \<in> set [''male'', ''female'', ''unknown'']"

definition check_severity :: "string \<Rightarrow> bool" where
  "check_severity v \<longleftrightarrow> v \<in> set [''mild'', ''moderate'', ''severe'']"

definition check_status :: "string \<Rightarrow> bool" where
  "check_status v \<longleftrightarrow> v \<in> set [''active'', ''managed'', ''resolved'']"

definition check_event_type :: "string \<Rightarrow> bool" where
  "check_event_type t \<longleftrightarrow>
     t \<in> set [''birthday'', ''adoption_anniversary'', ''vet_appointment'', ''grooming'',
              ''medication'', ''custom'']"

subsection \<open>Dogs\<close>

text \<open>
  The occurrence computed by \<^verbatim>\<open>POST /api/dogs\<close> from a birth date and, by the same code,
  from an adoption date. The text of the date is parsed as midnight UTC; its month and
  day are then read in local time and composed with the current local year into a
  local midnight, which is moved to the next year when it lies before the current
  instant. The event is dated on the UTC date of the result.
\<close>

definition thisYearBirthday :: "zone \<Rightarrow> date \<Rightarrow> instant \<Rightarrow> instant" where
  "thisYearBirthday tz date_of_birth now =
     (let birthDate = new_Date_iso date_of_birth;
          thisYear = UTC tz (new_Date_ymd (getFullYear (LocalTime tz now))
                               (getMonth (LocalTime tz birthDate))
                               (getDate (LocalTime tz birthDate)))
      in if instant_less thisYear now
         then UTC tz (setFullYear (LocalTime tz thisYear)
                        (getFullYear (LocalTime tz thisYear) + 1))
         else thisYear)"

text \<open>
  The body of \<^verbatim>\<open>POST /api/dogs\<close>. \<^verbatim>\<open>allergies\<close> and \<^verbatim>\<open>health_conditions\<close> are \<open>None\<close> when
  the request leaves them out or gives something that is not an array; each element of
  an array is an object, whose fields may be missing.
\<close>

record allergy_request =
  ar_allergen :: "string option"
  ar_severity :: "string option"
  ar_notes :: "string option"

record condition_request =
  cr_condition_name :: "string option"
  cr_diagnosed_date :: "date option"
  cr_status :: "string option"
  cr_notes :: "string option"

record dog_request =
  rq_name :: "string option"
  rq_gender :: "string option"
  rq_weight :: "rat option"
  rq_weight_unit :: "string option"
  rq_date_of_birth :: "date option"
  rq_adoption_date :: "date option"
  rq_allergies :: "allergy_request list option"
  rq_health_conditions :: "condition_request list option"

text \<open>
  A statement that throws leaves the rows written before it in place, since the handler
  opens no transaction; the id drawn for its row is spent. The first component of the
  result tells whether the statement went through.

  \<^verbatim>\<open>insertAllergy.run(uuidv4(), dogId, allergy.allergen, allergy.severity || 'moderate',
  allergy.notes || null)\<close> throws when the allergen is missing (\<^verbatim>\<open>allergen\<close> is \<^verbatim>\<open>NOT NULL\<close>,
  and a missing field cannot be bound) and when the severity is outside the column's
  \<^verbatim>\<open>CHECK\<close> list; the insert of a health condition likewise.
\<close>

definition insert_allergy :: "uuid \<Rightarrow> allergy_request \<Rightarrow> database \<Rightarrow> bool \<times> database" where
  "insert_allergy dogId a db =
     (let (i, db1) = uuidv4 db;
          sev = or_default (ar_severity a) ''moderate''
      in case ar_allergen a of
           None \<Rightarrow> (False, db1)
         | Some al \<Rightarrow>
             if \<not> check_severity sev then (False, db1)
             else (True, db1\<lparr>dog_allergies := dog_allergies db1 @
                     [\<lparr>al_id = i, al_dog_id = dogId, allergen = al, severity = sev,
                       al_notes = or_null (ar_notes a)\<rparr>]\<rparr>))"

definition insert_condition :: "uuid \<Rightarrow> condition_request \<Rightarrow> database \<Rightarrow> bool \<times> database" where
  "insert_condition dogId c db =
     (let (i, db1) = uuidv4 db;
          st = or_default (cr_status c) ''active''
      in case cr_condition_name c of
           None \<Rightarrow> (False, db1)
         | Some cn \<Rightarrow>
             if \<not> check_status st then (False, db1)
             else (True, db1\<lparr>dog_health_conditions := dog_health_conditions db1 @
                     [\<lparr>hc_id = i, hc_dog_id = dogId, condition_name = cn,
                       diagnosed_date = cr_diagnosed_date c, hc_status = st,
                       hc_notes = or_null (cr_notes c)\<rparr>]\<rparr>))"

text \<open>A \<^verbatim>\<open>for ... of\<close> loop of such statements: it stops at the first one that throws.\<close>

fun for_each ::
    "('a \<Rightarrow> database \<Rightarrow> bool \<times> database) \<Rightarrow> 'a list \<Rightarrow> database \<Rightarrow> bool \<times> database" where
  "for_each f [] db = (True, db)"
| "for_each f (x # xs) db =
     (let (ok, db1) = f x db in if ok then for_each f xs db1 else (False, db1))"

text \<open>
  \<^verbatim>\<open>INSERT INTO weight_history (id, dog_id, weight, weight_unit, recorded_date) VALUES
  (?, ?, ?, ?, date('now'))\<close>
\<close>

definition insert_weight :: "uuid \<Rightarrow> rat \<Rightarrow> string \<Rightarrow> instant \<Rightarrow> database \<Rightarrow> database" where
  "insert_weight dogId w unit now db =
     (let (i, db1) = uuidv4 db
      in db1\<lparr>weight_history := weight_history db1 @
           [\<lparr>wh_id = i, wh_dog_id = dogId, wh_weight = w, wh_weight_unit = unit,
             recorded_date = toISODate now, wh_notes = None\<rparr>]\<rparr>)"

text \<open>
  The two inserts into \<^verbatim>\<open>events\<close> of \<^verbatim>\<open>POST /api/dogs\<close>; \<^verbatim>\<open>is_active\<close> takes the column's
  default.
\<close>

definition insert_yearly_event ::
    "uuid \<Rightarrow> uuid \<Rightarrow> string \<Rightarrow> string \<Rightarrow> date \<Rightarrow> database \<Rightarrow> database" where
  "insert_yearly_event uid dogId ttl etype d db =
     (let (i, db1) = uuidv4 db
      in db1\<lparr>events := events db1 @
           [\<lparr>ev_id = i, ev_user_id = uid, ev_dog_id = Some dogId, ev_title = ttl,
             ev_description = None, event_type = etype, event_date = d,
             is_recurring = True, recurrence_pattern = Some ''yearly'',
             reminder_days_before = 7, is_active = True\<rparr>]\<rparr>)"

text \<open>
  \<^verbatim>\<open>POST /api/dogs\<close>, statement by statement: the dog, its allergies, its health
  conditions, its first weight, the birthday event and the adoption anniversary. A
  statement that throws ends the request with 500.
\<close>

definition dogsRouter_post ::
    "zone \<Rightarrow> uuid \<Rightarrow> dog_request \<Rightarrow> instant \<Rightarrow> database \<Rightarrow> response \<times> database" where
  "dogsRouter_post tz uid rq now db =
     (if \<not> truthy (rq_name rq)
      then (\<lparr>status = 400, body = ErrorJ ''Dog name is required''\<rparr>, db)
      else
        let name = or_default (rq_name rq) [];
            (dogId, db1) = uuidv4 db;
            gender = or_default (rq_gender rq) ''unknown''
        in if \<not> check_gender gender
           then (\<lparr>status = 500, body = ErrorJ ''Failed to create dog profile''\<rparr>, db1)
           else
             let db2 = db1\<lparr>dogs := dogs db1 @
                         [\<lparr>dog_id = dogId, dog_user_id = uid, dog_name = name,
                           dog_gender = gender,
                           dog_weight = (if truthy_number (rq_weight rq) then rq_weight rq
                                         else None),
                           dog_weight_unit = or_default (rq_weight_unit rq) ''kg'',
                           dog_date_of_birth = rq_date_of_birth rq,
                           dog_adoption_date = rq_adoption_date rq\<rparr>]\<rparr>;
                 (ok3, db3) = (case rq_allergies rq of
                                 None \<Rightarrow> (True, db2)
                               | Some allergies \<Rightarrow> for_each (insert_allergy dogId) allergies db2)
             in if \<not> ok3
                then (\<lparr>status = 500, body = ErrorJ ''Failed to create dog profile''\<rparr>, db3)
                else
                  let (ok4, db4) =
                        (case rq_health_conditions rq of
                           None \<Rightarrow> (True, db3)
                         | Some conditions \<Rightarrow> for_each (insert_condition dogId) conditions db3)
                  in if \<not> ok4
                     then (\<lparr>status = 500, body = ErrorJ ''Failed to create dog profile''\<rparr>, db4)
                     else
                       let db5 = (case rq_weight rq of
                                    None \<Rightarrow> db4
                                  | Some w \<Rightarrow>
                                      if w = 0 then db4
                                      else insert_weight dogId w
                                             (or_default (rq_weight_unit rq) ''kg'') now db4);
                           db6 = (case rq_date_of_birth rq of
                                    None \<Rightarrow> db5
                                  | Some dob \<Rightarrow>
                                      insert_yearly_event uid dogId
                                        (name @ [CHR 0x27] @ ''s Birthday'') ''birthday''
                                        (toISODate (thisYearBirthday tz dob now)) db5);
                           db7 = (case rq_adoption_date rq of
                                    None \<Rightarrow> db6
                                  | Some ad \<Rightarrow>
                                      insert_yearly_event uid dogId
                                        (name @ [CHR 0x27] @ ''s Gotcha Day'')
                                        ''adoption_anniversary''
                                        (toISODate (thisYearBirthday tz ad now)) db6)
                       in (\<lparr>status = 201,
                            body = DogJ ''Dog profile created''
                                     (first_row [d \<leftarrow> dogs db7. dog_id d = dogId])\<rparr>, db7))"

text \<open>
  The requests that \<^verbatim>\<open>POST /api/dogs\<close> carries out to the end: a name is given, and the
  gender, every allergy and every health condition pass the constraints of their
  tables.
\<close>

definition allergy_accepted :: "allergy_request \<Rightarrow> bool" where
  "allergy_accepted a \<longleftrightarrow>
     ar_allergen a \<noteq> None \<and> check_severity (or_default (ar_severity a) ''moderate'')"

definition condition_accepted :: "condition_request \<Rightarrow> bool" where
  "condition_accepted c \<longleftrightarrow>
     cr_condition_name c \<noteq> None \<and> check_status (or_default (cr_status c) ''active'')"


text \<open>
  \<^verbatim>\<open>GET /api/dogs/:id\<close>: the dog with its allergies, its health conditions and its ten
  latest weights.
\<close>

definition dogsRouter_get :: "uuid \<Rightarrow> uuid \<Rightarrow> database \<Rightarrow> response" where
  "dogsRouter_get uid i db =
     (case owned_dog i uid db of
        None \<Rightarrow> \<lparr>status = 404, body = ErrorJ ''Dog not found''\<rparr>
      | Some dog \<Rightarrow>
          \<lparr>status = 200,
           body = DogDetailJ dog
                    [a \<leftarrow> dog_allergies db. al_dog_id a = dog_id dog]
                    [c \<leftarrow> dog_health_conditions db. hc_dog_id c = dog_id dog]
                    (take 10 (order_by (\<lambda>a b. date_le (recorded_date b) (recorded_date a))
                                [w \<leftarrow> weight_history db. wh_dog_id w = dog_id dog]))\<rparr>)"

text \<open>
  \<^verbatim>\<open>DELETE FROM dogs WHERE id = ?\<close> with foreign keys on: the dog's allergies, health
  conditions, weights, vaccinations and medications go with it, and its events keep
  their row with \<^verbatim>\<open>dog_id\<close> set to NULL.
\<close>

definition delete_dog :: "uuid \<Rightarrow> database \<Rightarrow> database" where
  "delete_dog i db =
     db\<lparr>dogs := [d \<leftarrow> dogs db. dog_id d \<noteq> i],
        dog_allergies := [a \<leftarrow> dog_allergies db. al_dog_id a \<noteq> i],
        dog_health_conditions := [c \<leftarrow> dog_health_conditions db. hc_dog_id c \<noteq> i],
        weight_history := [w \<leftarrow> weight_history db. wh_dog_id w \<noteq> i],
        vaccinations := [v \<leftarrow> vaccinations db. vax_dog_id v \<noteq> i],
        medications := [m \<leftarrow> medications db. med_dog_id m \<noteq> i],
        events := map (\<lambda>e. if ev_dog_id e = Some i then e\<lparr>ev_dog_id := None\<rparr> else e)
                    (events db)\<rparr>"

definition dogsRouter_delete :: "uuid \<Rightarrow> uuid \<Rightarrow> database \<Rightarrow> response \<times> database" where
  "dogsRouter_delete uid i db =
     (case owned_dog i uid db of
        None \<Rightarrow> (\<lparr>status = 404, body = ErrorJ ''Dog not found''\<rparr>, db)
      | Some dog \<Rightarrow> (\<lparr>status = 200, body = MessageJ ''Dog profile deleted''\<rparr>, delete_dog i db))"

subsection \<open>Vaccinations\<close>

record vaccination_request =
  vq_dog_id :: "uuid option"
  vq_vaccine_name :: "string option"
  vq_date_administered :: "date option"
  vq_next_due_date :: "date option"
  vq_administered_by :: "string option"
  vq_lot_number :: "string option"
  vq_notes :: "string option"

text \<open>
  \<^verbatim>\<open>POST /api/vaccinations\<close>. The insert into \<^verbatim>\<open>vaccinations\<close> names no
  \<^verbatim>\<open>reminder_sent\<close>, which takes its default FALSE; the insert into \<^verbatim>\<open>events\<close> names
  neither \<^verbatim>\<open>is_recurring\<close>, \<^verbatim>\<open>recurrence_pattern\<close> nor \<^verbatim>\<open>is_active\<close>.
\<close>

definition vaccinationsRouter_post ::
    "uuid \<Rightarrow> vaccination_request \<Rightarrow> database \<Rightarrow> response \<times> database" where
  "vaccinationsRouter_post uid rq db =
     (case (vq_dog_id rq, vq_date_administered rq) of
        (Some dogId, Some administered) \<Rightarrow>
          if \<not> truthy (vq_vaccine_name rq)
          then (\<lparr>status = 400,
                 body = ErrorJ ''dog_id, vaccine_name, and date_administered are required''\<rparr>, db)
          else
            (case owned_dog dogId uid db of
               None \<Rightarrow> (\<lparr>status = 404, body = ErrorJ ''Dog not found''\<rparr>, db)
             | Some dog \<Rightarrow>
                 let vname = or_default (vq_vaccine_name rq) [];
                     (i, db1) = uuidv4 db;
                     db2 = db1\<lparr>vaccinations := vaccinations db1 @
                             [\<lparr>vax_id = i, vax_dog_id = dogId, vaccine_name = vname,
                               date_administered = administered,
                               next_due_date = vq_next_due_date rq,
                               administered_by = or_null (vq_administered_by rq),
                               lot_number = or_null (vq_lot_number rq),
                               vax_notes = or_null (vq_notes rq),
                               reminder_sent = False\<rparr>]\<rparr>;
                     db3 = (case vq_next_due_date rq of
                              None \<Rightarrow> db2
                            | Some due \<Rightarrow>
                                let (j, db2') = uuidv4 db2
                                in db2'\<lparr>events := events db2' @
                                     [\<lparr>ev_id = j, ev_user_id = uid, ev_dog_id = Some dogId,
                                       ev_title = vname @ '' Vaccination Due'',
                                       ev_description = Some ''Vaccination reminder for your dog'',
                                       event_type = ''vet_appointment'', event_date = due,
                                       is_recurring = False, recurrence_pattern = None,
                                       reminder_days_before = 14, is_active = True\<rparr>]\<rparr>)
                 in (\<lparr>status = 201,
                      body = VaccinationJ ''Vaccination recorded''
                               (first_row [v \<leftarrow> vaccinations db3. vax_id v = i])\<rparr>, db3))
      | _ \<Rightarrow> (\<lparr>status = 400,
                body = ErrorJ ''dog_id, vaccine_name, and date_administered are required''\<rparr>, db))"

text \<open>
  \<^verbatim>\<open>SELECT v.* FROM vaccinations v JOIN dogs d ON v.dog_id = d.id WHERE v.id = ? AND
  d.user_id = ?\<close>, the ownership check of the update and the delete.
\<close>

definition owned_vaccination :: "uuid \<Rightarrow> uuid \<Rightarrow> database \<Rightarrow> vaccination_row option" where
  "owned_vaccination i uid db =
     first_row [v. v \<leftarrow> vaccinations db, d \<leftarrow> dogs db, vax_dog_id v = dog_id d,
                   vax_id v = i \<and> dog_user_id d = uid]"

text \<open>
  The body of \<^verbatim>\<open>PUT /api/vaccinations/:id\<close>. \<open>None\<close> is a field given as \<^verbatim>\<open>null\<close>, which
  \<^verbatim>\<open>COALESCE(?, column)\<close> replaces by the stored value.
\<close>

record vaccination_update =
  vu_vaccine_name :: "string option"
  vu_date_administered :: "date option"
  vu_next_due_date :: "date option"
  vu_administered_by :: "string option"
  vu_lot_number :: "string option"
  vu_notes :: "string option"

definition vaccinationsRouter_put ::
    "uuid \<Rightarrow> uuid \<Rightarrow> vaccination_update \<Rightarrow> database \<Rightarrow> response \<times> database" where
  "vaccinationsRouter_put uid i rq db =
     (case owned_vaccination i uid db of
        None \<Rightarrow> (\<lparr>status = 404, body = ErrorJ ''Vaccination record not found''\<rparr>, db)
      | Some vaccination \<Rightarrow>
          let db1 = db\<lparr>vaccinations :=
                 map (\<lambda>v. if vax_id v = i
                           then v\<lparr>vaccine_name := coalesce (vu_vaccine_name rq) (vaccine_name v),
                                  date_administered :=
                                    coalesce (vu_date_administered rq) (date_administered v),
                                  next_due_date :=
                                    coalesce_opt (vu_next_due_date rq) (next_due_date v),
                                  administered_by :=
                                    coalesce_opt (vu_administered_by rq) (administered_by v),
                                  lot_number := coalesce_opt (vu_lot_number rq) (lot_number v),
                                  vax_notes := coalesce_opt (vu_notes rq) (vax_notes v)\<rparr>
                           else v)
                     (vaccinations db)\<rparr>
          in (\<lparr>status = 200,
               body = VaccinationJ ''Vaccination updated''
                        (first_row [v \<leftarrow> vaccinations db1. vax_id v = i])\<rparr>, db1))"

definition vaccinationsRouter_delete :: "uuid \<Rightarrow> uuid \<Rightarrow> database \<Rightarrow> response \<times> database" where
  "vaccinationsRouter_delete uid i db =
     (case owned_vaccination i uid db of
        None \<Rightarrow> (\<lparr>status = 404, body = ErrorJ ''Vaccination record not found''\<rparr>, db)
      | Some vaccination \<Rightarrow>
          (\<lparr>status = 200, body = MessageJ ''Vaccination record deleted''\<rparr>,
           db\<lparr>vaccinations := [v \<leftarrow> vaccinations db. vax_id v \<noteq> i]\<rparr>))"

text \<open>The order of a nullable date column under \<^verbatim>\<open>ORDER BY ... ASC\<close>: NULL first.\<close>

definition null_first_le :: "date option \<Rightarrow> date option \<Rightarrow> bool" where
  "null_first_le a b =
     (case a of None \<Rightarrow> True | Some x \<Rightarrow> (case b of None \<Rightarrow> False | Some y \<Rightarrow> date_le x y))"

text \<open>\<^verbatim>\<open>GET /api/vaccinations/dog/:dogId\<close>\<close>

definition vaccinationsRouter_get_dog :: "uuid \<Rightarrow> uuid \<Rightarrow> instant \<Rightarrow> database \<Rightarrow> response" where
  "vaccinationsRouter_get_dog uid dogId now db =
     (case owned_dog dogId uid db of
        None \<Rightarrow> \<lparr>status = 404, body = ErrorJ ''Dog not found''\<rparr>
      | Some dog \<Rightarrow>
          let all = order_by (\<lambda>a b. date_le (date_administered b) (date_administered a))
                      [v \<leftarrow> vaccinations db. vax_dog_id v = dogId];
              today = toISODate now;
              upcoming = order_by (\<lambda>a b. null_first_le (next_due_date a) (next_due_date b))
                      [v \<leftarrow> vaccinations db. vax_dog_id v = dogId \<and>
                         selected (sql_ge (next_due_date v) (Some today))];
              overdue = order_by (\<lambda>a b. null_first_le (next_due_date a) (next_due_date b))
                      [v \<leftarrow> vaccinations db. vax_dog_id v = dogId \<and>
                         selected (vaccination_overdue_where today v)]
          in \<lparr>status = 200, body = VaccinationsJ all upcoming overdue (length all)\<rparr>)"

text \<open>
  \<^verbatim>\<open>t.setMonth(t.getMonth() + n)\<close>: a month index past December carries into the year,
  then the day carries as in \<open>roll_day\<close>.
\<close>

definition setMonth_plus :: "instant \<Rightarrow> nat \<Rightarrow> instant" where
  "setMonth_plus t n =
     (let mi = getMonth t + n
      in t\<lparr>inst_date := roll_day (getFullYear t + int (mi div 12)) (mi mod 12 + 1) (getDate t)\<rparr>)"

text \<open>
  \<^verbatim>\<open>GET /api/vaccinations/upcoming\<close>: the caller's vaccinations due from today to the same
  day three months on, and the caller's overdue ones, each with the dog's name.
\<close>

definition vaccinationsRouter_get_upcoming :: "uuid \<Rightarrow> instant \<Rightarrow> database \<Rightarrow> response" where
  "vaccinationsRouter_get_upcoming uid now db =
     (let today = toISODate now;
          threeMonths = setMonth_plus now 3;
          upcoming = order_by (\<lambda>a b. null_first_le (next_due_date (fst a)) (next_due_date (fst b)))
            [(v, dog_name d). v \<leftarrow> vaccinations db, d \<leftarrow> dogs db, vax_dog_id v = dog_id d,
               dog_user_id d = uid \<and>
               selected (sql_and (sql_ge (next_due_date v) (Some today))
                                 (sql_le (next_due_date v) (Some (toISODate threeMonths))))];
          overdue = order_by (\<lambda>a b. null_first_le (next_due_date (fst a)) (next_due_date (fst b)))
            [(v, dog_name d). v \<leftarrow> vaccinations db, d \<leftarrow> dogs db, vax_dog_id v = dog_id d,
               dog_user_id d = uid \<and> selected (vaccination_overdue_where today v)]
      in \<lparr>status = 200, body = UpcomingJ upcoming overdue\<rparr>)"

subsection \<open>Events\<close>

text \<open>
  The handler does not check what kind of value \<^verbatim>\<open>reminder_days_before\<close> is. The values
  modelled are: a missing field, \<^verbatim>\<open>null\<close>, a boolean, a whole number, and a text that is
  the decimal numeral of a 64-bit integer (\<^verbatim>\<open>"0"\<close>, \<^verbatim>\<open>"14"\<close>, \<^verbatim>\<open>"-3"\<close>). Fractions, other
  texts, arrays and objects are left out: what the database makes of them goes through
  its floating-point reader or the driver's parameter lists.
\<close>

datatype js_value =
    Undefined
  | Null
  | Boolean bool
  | Number int
  | Numeral_text "64 word"

record event_request =
  eq_dog_id :: "uuid option"
  eq_title :: "string option"
  eq_description :: "string option"
  eq_event_type :: "string option"
  eq_event_date :: "date option"
  eq_is_recurring :: "bool option"
  eq_recurrence_pattern :: "string option"
  eq_reminder_days_before :: js_value

text \<open>
  \<^verbatim>\<open>reminder_days_before || 1\<close> as it arrives in the column
  \<^verbatim>\<open>reminder_days_before INTEGER\<close>. A missing field, \<^verbatim>\<open>null\<close>, \<^verbatim>\<open>false\<close> and the number 0 are
  falsy and give 1. Every non-empty text is truthy, \<^verbatim>\<open>"0"\<close> included, and the column's
  integer affinity stores the text of a numeral as the integer it denotes. \<^verbatim>\<open>true\<close> is
  truthy and is not a value that better-sqlite3 binds: the statement throws, which is
  \<open>None\<close> here.
\<close>

definition reminder_days_before_column :: "js_value \<Rightarrow> int option" where
  "reminder_days_before_column v =
     (case v of
        Undefined \<Rightarrow> Some 1
      | Null \<Rightarrow> Some 1
      | Boolean b \<Rightarrow> if b then None else Some 1
      | Number n \<Rightarrow> Some (if n = 0 then 1 else n)
      | Numeral_text w \<Rightarrow> Some (sint w))"

text \<open>
  \<^verbatim>\<open>POST /api/events\<close>. An \<^verbatim>\<open>event_type\<close> outside the column's \<^verbatim>\<open>CHECK\<close> list makes the
  insert throw, and so does a value that cannot be bound; the handler answers both with
  500.
\<close>

definition eventsRouter_post ::
    "uuid \<Rightarrow> event_request \<Rightarrow> database \<Rightarrow> response \<times> database" where
  "eventsRouter_post uid rq db =
     (case eq_event_date rq of
        None \<Rightarrow> (\<lparr>status = 400, body = ErrorJ ''Title and event_date are required''\<rparr>, db)
      | Some edate \<Rightarrow>
          if \<not> truthy (eq_title rq)
          then (\<lparr>status = 400, body = ErrorJ ''Title and event_date are required''\<rparr>, db)
          else if (case eq_dog_id rq of None \<Rightarrow> False
                   | Some dogId \<Rightarrow> owned_dog dogId uid db = None)
          then (\<lparr>status = 404, body = ErrorJ ''Dog not found''\<rparr>, db)
          else
            let (i, db1) = uuidv4 db;
                etype = or_default (eq_event_type rq) ''custom''
            in (case reminder_days_before_column (eq_reminder_days_before rq) of
                  None \<Rightarrow> (\<lparr>status = 500, body = ErrorJ ''Failed to create event''\<rparr>, db1)
                | Some lead \<Rightarrow>
                    if \<not> check_event_type etype
                    then (\<lparr>status = 500, body = ErrorJ ''Failed to create event''\<rparr>, db1)
                    else
                      let db2 = db1\<lparr>events := events db1 @
                              [\<lparr>ev_id = i, ev_user_id = uid, ev_dog_id = eq_dog_id rq,
                                ev_title = or_default (eq_title rq) [],
                                ev_description = or_null (eq_description rq),
                                event_type = etype, event_date = edate,
                                is_recurring = (eq_is_recurring rq = Some True),
                                recurrence_pattern = or_null (eq_recurrence_pattern rq),
                                reminder_days_before = lead, is_active = True\<rparr>]\<rparr>
                      in (\<lparr>status = 201,
                           body = EventJ ''Event created''
                                    (first_row [e \<leftarrow> events db2. ev_id e = i])\<rparr>, db2)))"

text \<open>\<^verbatim>\<open>GET /api/events/dog/:dogId\<close>\<close>

definition eventsRouter_get_dog :: "uuid \<Rightarrow> uuid \<Rightarrow> database \<Rightarrow> response" where
  "eventsRouter_get_dog uid dogId db =
     (case owned_dog dogId uid db of
        None \<Rightarrow> \<lparr>status = 404, body = ErrorJ ''Dog not found''\<rparr>
      | Some dog \<Rightarrow>
          \<lparr>status = 200,
           body = EventsJ (order_by (\<lambda>a b. date_le (event_date a) (event_date b))
                     [e \<leftarrow> events db. ev_dog_id e = Some dogId])\<rparr>)"

subsection \<open>Medications\<close>

record medication_request =
  mq_dog_id :: "uuid option"
  mq_name :: "string option"
  mq_dosage :: "string option"
  mq_frequency :: "string option"
  mq_start_date :: "date option"
  mq_end_date :: "date option"

text \<open>\<^verbatim>\<open>POST /api/health/medication\<close>\<close>

definition healthRouter_post_medication ::
    "uuid \<Rightarrow> medication_request \<Rightarrow> database \<Rightarrow> response \<times> database" where
  "healthRouter_post_medication uid rq db =
     (case (mq_dog_id rq, mq_start_date rq) of
        (Some dogId, Some start) \<Rightarrow>
          if \<not> truthy (mq_name rq)
          then (\<lparr>status = 400, body = ErrorJ ''dog_id, name, and start_date are required''\<rparr>, db)
          else
            (case owned_dog dogId uid db of
               None \<Rightarrow> (\<lparr>status = 404, body = ErrorJ ''Dog not found''\<rparr>, db)
             | Some dog \<Rightarrow>
                 let name = or_default (mq_name rq) [];
                     (i, db1) = uuidv4 db;
                     db2 = db1\<lparr>medications := medications db1 @
                             [\<lparr>med_id = i, med_dog_id = dogId, med_name = name,
                               med_dosage = or_null (mq_dosage rq),
                               med_frequency = or_null (mq_frequency rq),
                               med_start_date = start, med_end_date = mq_end_date rq,
                               med_is_active = True\<rparr>]\<rparr>;
                     db3 = (if truthy (mq_frequency rq)
                            then
                              let (j, db2') = uuidv4 db2;
                                  frequency = or_default (mq_frequency rq) []
                              in db2'\<lparr>events := events db2' @
                                   [\<lparr>ev_id = j, ev_user_id = uid, ev_dog_id = Some dogId,
                                     ev_title = ''Give '' @ name @ '' medication'',
                                     ev_description =
                                       Some (''Dosage: '' @ or_default (mq_dosage rq) ''As prescribed''
                                             @ ''. Frequency: '' @ frequency),
                                     event_type = ''medication'', event_date = start,
                                     is_recurring = True, recurrence_pattern = Some frequency,
                                     reminder_days_before = 0, is_active = True\<rparr>]\<rparr>
                            else db2)
                 in (\<lparr>status = 201,
                      body = MedicationJ ''Medication added''
                               (first_row [m \<leftarrow> medications db3. med_id m = i])\<rparr>, db3))
      | _ \<Rightarrow> (\<lparr>status = 400, body = ErrorJ ''dog_id, name, and start_date are required''\<rparr>, db))"

subsection \<open>The advisory gateway\<close>

record ask_request =
  aq_question :: "string option"
  aq_ask_dog_id :: "uuid option"

text \<open>
  \<^verbatim>\<open>POST /api/ai/ask\<close>. The language-model call is outside the program: \<open>askQuestion\<close>
  stands for \<^verbatim>\<open>aiService.askQuestion\<close> and gives the answer, or \<open>None\<close> when the
  call throws. The dog context handed to it is built from the caller's own dog (the
  row, from which the handler takes name, breed and age, and the names of the dog's
  health conditions), and is absent when the caller owns no dog of that id. The row
  written to \<^verbatim>\<open>ai_queries\<close> carries the \<^verbatim>\<open>dog_id\<close> of the request as it came.
\<close>

definition aiRouter_post_ask ::
    "(string \<Rightarrow> (dog_row \<times> string list) option \<Rightarrow> string option) \<Rightarrow> uuid \<Rightarrow> ask_request
      \<Rightarrow> instant \<Rightarrow> database \<Rightarrow> response \<times> database" where
  "aiRouter_post_ask askQuestion uid rq now db =
     (if \<not> truthy (aq_question rq)
      then (\<lparr>status = 400, body = ErrorJ ''Question is required''\<rparr>, db)
      else
        let question = or_default (aq_question rq) [];
            dogContext =
              (case aq_ask_dog_id rq of
                 None \<Rightarrow> None
               | Some dogId \<Rightarrow>
                   (case owned_dog dogId uid db of
                      None \<Rightarrow> None
                    | Some dog \<Rightarrow>
                        Some (dog, [condition_name c.
                                      c \<leftarrow> dog_health_conditions db, hc_dog_id c = dogId])))
        in case askQuestion question dogContext of
             None \<Rightarrow> (\<lparr>status = 500, body = ErrorJ ''Failed to process AI query''\<rparr>, db)
           | Some answer \<Rightarrow>
               let (i, db1) = uuidv4 db
               in (\<lparr>status = 200, body = AnswerJ answer\<rparr>,
                   db1\<lparr>ai_queries := ai_queries db1 @
                         [\<lparr>aq_id = i, aq_user_id = uid, aq_dog_id = aq_ask_dog_id rq,
                           aq_query = question, aq_response = answer,
                           aq_created_at = now\<lparr>inst_ms := inst_ms now div 1000 * 1000\<rparr>\<rparr>]\<rparr>))"

text \<open>
  \<^verbatim>\<open>GET /api/ai/history\<close>: \<^verbatim>\<open>SELECT q.*, d.name as dog_name FROM ai_queries q LEFT JOIN dogs d
  ON q.dog_id = d.id WHERE q.user_id = ?\<close>, with \<^verbatim>\<open>AND q.dog_id = ?\<close> when the query string
  names a dog, then \<^verbatim>\<open>ORDER BY q.created_at DESC LIMIT ?\<close>. The join has no condition on
  the owner of the dog. \<open>limit\<close> is the number in the query string, 20 when there is
  none; a negative \<^verbatim>\<open>LIMIT\<close> keeps every row.
\<close>

definition instant_le :: "instant \<Rightarrow> instant \<Rightarrow> bool" where
  "instant_le a b \<longleftrightarrow> \<not> instant_less b a"

definition left_join_query_dog_name :: "ai_query_row \<Rightarrow> dog_row list \<Rightarrow> string option list" where
  "left_join_query_dog_name q ds =
     (case filter (\<lambda>d. aq_dog_id q = Some (dog_id d)) ds of
        [] \<Rightarrow> [None]
      | m # ms \<Rightarrow> map (\<lambda>d. Some (dog_name d)) (m # ms))"

definition aiRouter_get_history :: "uuid \<Rightarrow> int option \<Rightarrow> uuid option \<Rightarrow> database \<Rightarrow> response" where
  "aiRouter_get_history uid limit dogId db =
     (let rows = [(q, n). q \<leftarrow> ai_queries db, n \<leftarrow> left_join_query_dog_name q (dogs db),
                    aq_user_id q = uid \<and>
                    (case dogId of None \<Rightarrow> True | Some i \<Rightarrow> aq_dog_id q = Some i)];
          sorted = order_by (\<lambda>a b. instant_le (aq_created_at (fst b)) (aq_created_at (fst a)))
                     rows;
          n = (case limit of None \<Rightarrow> 20 | Some k \<Rightarrow> k)
      in \<lparr>status = 200,
          body = HistoryJ (if n < 0 then sorted else take (nat n) sorted)\<rparr>)"

subsection \<open>Sequences of operations\<close>

text \<open>
  The operations above that write to the store, as the steps of a history: requests
  of any caller in any order, interleaved with runs of the daily job.
\<close>

datatype operation =
    CreateDog zone uuid dog_request instant
  | DeleteDog uuid uuid
  | CreateVaccination uuid vaccination_request
  | UpdateVaccination uuid uuid vaccination_update
  | DeleteVaccination uuid uuid
  | CreateEvent uuid event_request
  | CreateMedication uuid medication_request
  | Ask "string \<Rightarrow> (dog_row \<times> string list) option \<Rightarrow> string option" uuid ask_request instant
  | DailyJob instant

fun perform :: "operation \<Rightarrow> database \<Rightarrow> database" where
  "perform (CreateDog tz uid rq now) db = snd (dogsRouter_post tz uid rq now db)"
| "perform (DeleteDog uid i) db = snd (dogsRouter_delete uid i db)"
| "perform (CreateVaccination uid rq) db = snd (vaccinationsRouter_post uid rq db)"
| "perform (UpdateVaccination uid i rq) db = snd (vaccinationsRouter_put uid i rq db)"
| "perform (DeleteVaccination uid i) db = snd (vaccinationsRouter_delete uid i db)"
| "perform (CreateEvent uid rq) db = snd (eventsRouter_post uid rq db)"
| "perform (CreateMedication uid rq) db = snd (healthRouter_post_medication uid rq db)"
| "perform (Ask f uid rq now) db = snd (aiRouter_post_ask f uid rq now db)"
| "perform (DailyJob now) db = snd (daily_job now db)"

fun run :: "operation list \<Rightarrow> database \<Rightarrow> database" where
  "run [] db = db"
| "run (x # xs) db = run xs (perform x db)"

text \<open>
  What the primary keys and \<^verbatim>\<open>uuidv4\<close> guarantee of a store: no two vaccinations and
  no two dogs share an id, and every id in use has been handed out already.
\<close>

definition keys_ok :: "database \<Rightarrow> bool" where
  "keys_ok db \<longleftrightarrow>
     distinct (map vax_id (vaccinations db)) \<and>
     distinct (map dog_id (dogs db)) \<and>
     (\<forall>v \<in> set (vaccinations db). vax_id v < next_uuid db) \<and>
     (\<forall>d \<in> set (dogs db). dog_id d < next_uuid db)"

text \<open>
  How the vaccinations of a later store relate to those of an earlier one when no
  reminder flag has been cleared in between: every later row either carries an id handed
  out since, or continues an earlier row of the same id whose flag, if set, is still set.
\<close>

definition flags_kept :: "database \<Rightarrow> database \<Rightarrow> bool" where
  "flags_kept db db' \<longleftrightarrow>
     next_uuid db \<le> next_uuid db' \<and>
     (\<forall>v' \<in> set (vaccinations db').
        next_uuid db \<le> vax_id v' \<or>
        (\<exists>v \<in> set (vaccinations db).
           vax_id v = vax_id v' \<and> (reminder_sent v \<longrightarrow> reminder_sent v')))"

section \<open>The food-safety table\<close>

text \<open>
  The columns of \<^verbatim>\<open>food_database\<close> that the search reads or that identify a row; the
  five free-text columns (description, benefits, risks, serving suggestion, sources)
  are left out.
\<close>

record food_row =
  food_id :: string
  food_name :: string
  category :: string
  is_safe :: bool
  safety_level :: string

text \<open>ASCII lower case, as SQLite's \<^verbatim>\<open>LOWER\<close> and, on these names, \<^verbatim>\<open>toLowerCase\<close>.\<close>

definition lower_char :: "char \<Rightarrow> char" where
  "lower_char c =
     (let n = of_char c :: nat in if 65 \<le> n \<and> n \<le> 90 then char_of (n + 32) else c)"

definition LOWER :: "string \<Rightarrow> string" where
  "LOWER s = map lower_char s"

text \<open>
  SQLite's \<^verbatim>\<open>text LIKE pattern\<close>: \<^verbatim>\<open>%\<close> matches any run of characters, \<^verbatim>\<open>_\<close> any one
  character, and letters match without regard to case.
\<close>

fun like :: "string \<Rightarrow> string \<Rightarrow> bool" where
  "like [] t = (t = [])"
| "like (p # ps) t =
     (if p = CHR ''%''
      then like ps t \<or> (case t of [] \<Rightarrow> False | c # cs \<Rightarrow> like (p # ps) cs)
      else (case t of [] \<Rightarrow> False
            | c # cs \<Rightarrow> (p = CHR ''_'' \<or> lower_char p = lower_char c) \<and> like ps cs))"

text \<open>\<^verbatim>\<open>s.replace(/\s+/g, '-')\<close>: every run of blanks becomes one hyphen.\<close>

definition is_space :: "char \<Rightarrow> bool" where
  "is_space c \<longleftrightarrow> c \<in> set [CHR '' '', CHR 0x09, CHR 0x0A, CHR 0x0B, CHR 0x0C, CHR 0x0D]"

fun replace_blanks :: "bool \<Rightarrow> string \<Rightarrow> string" where
  "replace_blanks in_run [] = []"
| "replace_blanks in_run (c # cs) =
     (if is_space c then (if in_run then replace_blanks True cs
                          else CHR ''-'' # replace_blanks True cs)
      else c # replace_blanks False cs)"

text \<open>\<^verbatim>\<open>INSERT OR IGNORE\<close>: a row whose id or name is taken already is dropped silently.\<close>

definition insert_or_ignore :: "food_row \<Rightarrow> food_row list \<Rightarrow> food_row list" where
  "insert_or_ignore r tbl =
     (if \<exists>x \<in> set tbl. food_id x = food_id r \<or> food_name x = food_name r then tbl
      else tbl @ [r])"

text \<open>The rows of \<^verbatim>\<open>foodData\<close> as (name, category, is_safe, safety_level).\<close>

definition foodData :: "(string \<times> string \<times> bool \<times> string) list" where
  "foodData =
    [(''Carrots'', ''vegetable'', True, ''safe''),
     (''Blueberries'', ''fruit'', True, ''safe''),
     (''Chicken'', ''protein'', True, ''safe''),
     (''Peanut Butter'', ''other'', True, ''safe_in_moderation''),
     (''Pumpkin'', ''vegetable'', True, ''safe''),
     (''Sweet Potato'', ''vegetable'', True, ''safe''),
     (''Apples'', ''fruit'', True, ''safe''),
     (''Salmon'', ''protein'', True, ''safe''),
     (''Rice'', ''grain'', True, ''safe''),
     (''Watermelon'', ''fruit'', True, ''safe''),
     (''Green Beans'', ''vegetable'', True, ''safe''),
     (''Eggs'', ''protein'', True, ''safe''),
     (''Chocolate'', ''toxic'', False, ''toxic''),
     (''Grapes'', ''toxic'', False, ''dangerous''),
     (''Raisins'', ''toxic'', False, ''dangerous''),
     (''Onions'', ''toxic'', False, ''toxic''),
     (''Garlic'', ''toxic'', False, ''toxic''),
     (''Xylitol'', ''toxic'', False, ''dangerous''),
     (''Alcohol'', ''toxic'', False, ''dangerous''),
     (''Avocado'', ''toxic'', False, ''toxic''),
     (''Macadamia Nuts'', ''toxic'', False, ''toxic''),
     (''Caffeine'', ''toxic'', False, ''toxic''),
     (''Raw Yeast Dough'', ''toxic'', False, ''dangerous''),
     (''Cooked Bones'', ''toxic'', False, ''dangerous'')]"

definition populateFoodDatabase :: "food_row list \<Rightarrow> food_row list" where
  "populateFoodDatabase tbl =
     foldl (\<lambda>t (name, cat, safe, level).
              insert_or_ignore
                \<lparr>food_id = replace_blanks False (LOWER name), food_name = name,
                  category = cat, is_safe = safe, safety_level = level\<rparr> t)
       tbl foodData"

text \<open>The table of a freshly initialised database.\<close>

definition seeded_food_database :: "food_row list" where
  "seeded_food_database = populateFoodDatabase []"

text \<open>
  \<^verbatim>\<open>GET /api/food/search\<close>. \<open>q\<close> is \<open>None\<close> when the query parameter is missing or is
  not a text. The clause is \<^verbatim>\<open>LOWER(food_name) LIKE LOWER(?) OR LOWER(category) LIKE
  LOWER(?)\<close>, both parameters bound to \<^verbatim>\<open>%q%\<close>; the rows come back ordered by name, in
  SQLite's byte order of texts.
\<close>

definition food_search_where :: "string \<Rightarrow> food_row \<Rightarrow> bool" where
  "food_search_where q r \<longleftrightarrow>
     like (LOWER (''%'' @ q @ ''%'')) (LOWER (food_name r)) \<or>
     like (LOWER (''%'' @ q @ ''%'')) (LOWER (category r))"

fun text_le :: "string \<Rightarrow> string \<Rightarrow> bool" where
  "text_le [] t = True"
| "text_le (c # cs) [] = False"
| "text_le (c # cs) (d # ds) =
     ((of_char c :: nat) < of_char d \<or> (c = d \<and> text_le cs ds))"

datatype food_response =
    FoodError nat string
  | FoodResults "food_row list" string

definition foodRouter_get_search :: "string option \<Rightarrow> food_row list \<Rightarrow> food_response" where
  "foodRouter_get_search q tbl =
     (case q of
        None \<Rightarrow> FoodError 400 ''Search query is required''
      | Some s \<Rightarrow>
          if s = [] then FoodError 400 ''Search query is required''
          else FoodResults
                 (order_by (\<lambda>a b. text_le (food_name a) (food_name b))
                    [r \<leftarrow> tbl. food_search_where s r]) s)"

section \<open>Example data\<close>

text \<open>
  A small store on which the theorems below are instantiated: one user (id 0) with one
  dog, a vaccination due five days after \<open>demo_today\<close>, and an event on the next day.
\<close>

definition demo_today :: date where
  "demo_today = \<lparr>year = 2024, month = 3, day = 15\<rparr>"

definition demo_now :: instant where
  "demo_now = \<lparr>inst_date = demo_today, inst_ms = 32400000\<rparr>"

definition demo_dog :: dog_row where
  "demo_dog =
     \<lparr>dog_id = 1, dog_user_id = 0, dog_name = ''Rex'', dog_gender = ''male'',
      dog_weight = None, dog_weight_unit = ''kg'',
      dog_date_of_birth = Some \<lparr>year = 2020, month = 1, day = 10\<rparr>,
      dog_adoption_date = None\<rparr>"

definition demo_vaccination :: vaccination_row where
  "demo_vaccination =
     \<lparr>vax_id = 2, vax_dog_id = 1, vaccine_name = ''Rabies'',
      date_administered = \<lparr>year = 2023, month = 3, day = 20\<rparr>,
      next_due_date = Some \<lparr>year = 2024, month = 3, day = 20\<rparr>,
      administered_by = None, lot_number = None, vax_notes = None,
      reminder_sent = False\<rparr>"

definition demo_event :: event_row where
  "demo_event =
     \<lparr>ev_id = 3, ev_user_id = 0, ev_dog_id = Some 1, ev_title = ''Grooming'',
      ev_description = None, event_type = ''grooming'',
      event_date = \<lparr>year = 2024, month = 3, day = 16\<rparr>,
      is_recurring = False, recurrence_pattern = None,
      reminder_days_before = 1, is_active = True\<rparr>"

definition demo_store :: database where
  "demo_store =
     \<lparr>dogs = [demo_dog], dog_allergies = [], dog_health_conditions = [],
      weight_history = [], vaccinations = [demo_vaccination], events = [demo_event],
      medications = [], ai_queries = [], next_uuid = 4\<rparr>"

definition demo_medication_request :: medication_request where
  "demo_medication_request =
     \<lparr>mq_dog_id = Some 1, mq_name = Some ''Carprofen'', mq_dosage = None,
      mq_frequency = Some ''daily'', mq_start_date = Some demo_today, mq_end_date = None\<rparr>"



definition scenario_dog_request :: dog_request where
  "scenario_dog_request =
     \<lparr>rq_name = Some ''Rex'', rq_gender = Some ''male'',
      rq_weight = None, rq_weight_unit = None,
      rq_date_of_birth = Some \<lparr>year = 2020, month = 1, day = 10\<rparr>,
      rq_adoption_date = None, rq_allergies = None, rq_health_conditions = None\<rparr>"



definition demo_vaccination_request :: vaccination_request where
  "demo_vaccination_request =
     \<lparr>vq_dog_id = Some 1, vq_vaccine_name = Some ''DHPP'',
      vq_date_administered = Some demo_today,
      vq_next_due_date = Some \<lparr>year = 2025, month = 3, day = 15\<rparr>,
      vq_administered_by = None, vq_lot_number = None, vq_notes = None\<rparr>"

definition demo_event_request :: event_request where
  "demo_event_request =
     \<lparr>eq_dog_id = None, eq_title = Some ''Walk'', eq_description = None,
      eq_event_type = None, eq_event_date = Some demo_today, eq_is_recurring = None,
      eq_recurrence_pattern = None, eq_reminder_days_before = Number 0\<rparr>"

text \<open>The same event with the text \<^verbatim>\<open>"0"\<close> as lead time.\<close>

definition text_zero_event_request :: event_request where
  "text_zero_event_request =
     demo_event_request\<lparr>eq_reminder_days_before := Numeral_text 0\<rparr>"

text \<open>
  The example store after the daily job of \<open>demo_now\<close>, and a history on it: an update
  of the reminded vaccination that moves its due date, a second dog, another
  vaccination, and the daily job of the day after.
\<close>

definition demo_store_reminded :: database where
  "demo_store_reminded =
     demo_store\<lparr>vaccinations := [demo_vaccination\<lparr>reminder_sent := True\<rparr>]\<rparr>"

definition demo_history :: "operation list" where
  "demo_history =
     [UpdateVaccination 0 2
        \<lparr>vu_vaccine_name = None, vu_date_administered = None,
         vu_next_due_date = Some \<lparr>year = 2024, month = 3, day = 18\<rparr>,
         vu_administered_by = None, vu_lot_number = None, vu_notes = Some ''moved''\<rparr>,
      CreateDog utc_zone 0 scenario_dog_request demo_now,
      CreateVaccination 0 demo_vaccination_request,
      DailyJob \<lparr>inst_date = \<lparr>year = 2024, month = 3, day = 16\<rparr>, inst_ms = 32400000\<rparr>]"

text \<open>
  A question that names dog 1 of the example store, and the same question naming dog 9,
  which does not exist.
\<close>

definition demo_ask_request :: ask_request where
  "demo_ask_request = \<lparr>aq_question = Some ''Is rice safe?'', aq_ask_dog_id = Some 1\<rparr>"

definition absent_dog_ask_request :: ask_request where
  "absent_dog_ask_request = \<lparr>aq_question = Some ''Is rice safe?'', aq_ask_dog_id = Some 9\<rparr>"




definition demo_askQuestion :: "string \<Rightarrow> (dog_row \<times> string list) option \<Rightarrow> string option" where
  "demo_askQuestion question dogContext = Some ''Plain cooked rice is safe.''"

section \<open>Facts about dates and SQL conditions\<close>

lemma date_le_refl: "date_le d d"
  by (simp add: date_le_def)



lemma date_less_le_trans: "date_less a b \<Longrightarrow> date_le b c \<Longrightarrow> date_less a c"
  by (auto simp: date_le_def date_less_def)


lemma date_le_antisym: "date_le a b \<Longrightarrow> date_le b a \<Longrightarrow> a = b"
  by (cases a, cases b) (auto simp: date_le_def)


lemma date_less_prev_day: "valid_date d \<Longrightarrow> date_less (prev_day d) d"
  by (auto simp: date_less_def prev_day_def valid_date_def)

lemma next_prev_day: "valid_date d \<Longrightarrow> next_day (prev_day d) = d"
  by (cases d) (auto simp: next_day_def prev_day_def valid_date_def days_in_month_def)



lemma selected_sql_and: "selected (sql_and a b) \<longleftrightarrow> selected a \<and> selected b"
  by (auto simp: selected_def sql_and_def)

lemma selected_sql_le:
  "selected (sql_le a b) \<longleftrightarrow> (\<exists>x y. a = Some x \<and> b = Some y \<and> date_le x y)"
  by (auto simp: selected_def sql_le_def split: option.splits)

lemma selected_sql_lt:
  "selected (sql_lt a b) \<longleftrightarrow> (\<exists>x y. a = Some x \<and> b = Some y \<and> date_less x y)"
  by (auto simp: selected_def sql_lt_def split: option.splits)

lemma selected_Some: "selected (Some b) \<longleftrightarrow> b"
  by (simp add: selected_def)


lemma sqlite_add_days_cases:
  "sqlite_add_days n d = None \<or> sqlite_add_days n d = Some (add_days n d)"
  by (induction n) (auto split: option.splits)


lemma selected_event_window:
  "selected (event_window today n d) \<longleftrightarrow>
     (\<exists>u. sqlite_date_plus_days today n = Some u \<and> date_le today d \<and> date_le d u)"
  by (auto simp: event_window_def sql_between_def sql_ge_def selected_sql_and selected_sql_le)

lemma selected_event_reminder:
  "selected (event_reminder_where today e) \<longleftrightarrow>
     is_active e \<and>
     (\<exists>u. sqlite_date_plus_days today (reminder_days_before e) = Some u \<and>
          date_le today (event_date e) \<and> date_le (event_date e) u)"
  by (simp add: event_reminder_where_def selected_sql_and selected_Some selected_event_window)

lemma selected_vaccination_window:
  "selected (vaccination_window r today due) \<longleftrightarrow>
     (\<exists>t. due = Some t \<and> date_le today t \<and> date_le t r)"
  by (auto simp: vaccination_window_def sql_ge_def selected_sql_and selected_sql_le)

lemma selected_vaccination_reminder:
  "selected (vaccination_reminder_where r today v) \<longleftrightarrow>
     (\<exists>t. next_due_date v = Some t \<and> date_le today t \<and> date_le t r) \<and> \<not> reminder_sent v"
  by (simp add: vaccination_reminder_where_def selected_sql_and selected_Some
      selected_vaccination_window)

lemma selected_vaccination_overdue:
  "selected (vaccination_overdue_where today v) \<longleftrightarrow>
     (\<exists>t. next_due_date v = Some t \<and> date_less t today)"
  by (auto simp: vaccination_overdue_where_def sql_is_not_null_def selected_sql_and
      selected_sql_lt selected_Some)

lemma set_insort_by: "set (insort_by le x xs) = insert x (set xs)"
  by (induction xs) auto

lemma set_order_by: "set (order_by le xs) = set xs"
  by (induction xs) (simp_all add: order_by_def set_insort_by)

lemma set_join:
  "set [f v d. v \<leftarrow> vs, d \<leftarrow> ds, J v d, S v d] =
     {f v d | v d. v \<in> set vs \<and> d \<in> set ds \<and> J v d \<and> S v d}"
  by (auto split: if_splits)


lemma checkVaccinationReminders_fst:
  "fst (checkVaccinationReminders now db) =
     upcomingVaccinations (add_days 7 (toISODate now)) (toISODate now) db"
  by (simp add: checkVaccinationReminders_def Let_def toISODate_def setDate_plus_def)

lemma checkVaccinationReminders_snd:
  "snd (checkVaccinationReminders now db) =
     foldl (\<lambda>s vax. mark_reminder_sent (uv_id vax) s) db (fst (checkVaccinationReminders now db))"
  by (simp add: checkVaccinationReminders_def Let_def)

lemma left_join_nonempty: "left_join_dog_name e ds \<noteq> []"
  by (simp add: left_join_dog_name_def split: list.splits)

lemma left_join_member: "\<exists>n. n \<in> set (left_join_dog_name e ds)"
  by (cases "left_join_dog_name e ds") (auto simp: left_join_nonempty)

lemma select_inner:
  "concat (map (\<lambda>n. if S then [g n] else []) ns) = (if S then map g ns else [])"
  by (induction ns) auto

lemma event_id_list:
  "map ue_id (checkEventReminders now db) =
     concat (map (\<lambda>e. if selected (event_reminder_where (toISODate now) e)
                       then map (\<lambda>n. ev_id e) (left_join_dog_name e (dogs db)) else [])
              (events db))"
  unfolding checkEventReminders_def Let_def
  by (simp add: map_concat comp_def select_inner if_distrib [of "map ue_id"] cong: if_cong)

lemma event_ids:
  "ue_id ` set (checkEventReminders now db) =
     {ev_id e | e. e \<in> set (events db) \<and> selected (event_reminder_where (toISODate now) e)}"
proof -
  have "ue_id ` set (checkEventReminders now db) = set (map ue_id (checkEventReminders now db))"
    by simp
  also have "\<dots> = {ev_id e | e. e \<in> set (events db) \<and>
        selected (event_reminder_where (toISODate now) e)}"
    unfolding event_id_list using left_join_member by (auto split: if_splits) blast
  finally show ?thesis .
qed

text \<open>Unfolding the clauses on concrete rows.\<close>

lemmas clause_defs = vaccination_reminder_where_def event_reminder_where_def
  vaccination_window_def event_window_def sql_between_def
  sql_le_def sql_ge_def sql_and_def selected_def date_le_def sqlite_date_plus_days_def
  next_day_def days_in_month_def

lemma demo_week:
  "add_days 7 \<lparr>year = 2024, month = 3, day = 15\<rparr> = \<lparr>year = 2024, month = 3, day = 22\<rparr>"
  by code_simp

lemma demo_events_reported:
  assumes "events db = [demo_event]" and "dogs db = [demo_dog]"
  shows "checkEventReminders demo_now db =
    [\<lparr>ue_id = 3, ue_title = ''Grooming'',
      ue_event_date = \<lparr>year = 2024, month = 3, day = 16\<rparr>,
      ue_dog_name = Some ''Rex'', ue_user_id = 0\<rparr>]"
  using assms
  by (simp add: checkEventReminders_def Let_def toISODate_def demo_now_def demo_today_def
      demo_event_def demo_dog_def left_join_dog_name_def clause_defs)

section \<open>The reminder window\<close>




section \<open>Overdue\<close>

text \<open>
  Claim C2. A vaccination is selected by the overdue clause exactly when it has a due
  date and that date is strictly before today. With today = \<open>d\<close> the day before \<open>d\<close> is
  overdue, \<open>d\<close> itself is not, and a row without due date (NULL) is never overdue. The
  overdue list of \<^verbatim>\<open>GET /api/vaccinations/upcoming\<close> holds exactly the caller's
  vaccinations whose due date is before today.
\<close>

theorem overdue_iff_target_before_today:
  assumes "valid_date d"
  shows "(selected (vaccination_overdue_where today v) \<longleftrightarrow>
            (\<exists>t. next_due_date v = Some t \<and> date_less t today)) \<and>
         selected (vaccination_overdue_where d (v\<lparr>next_due_date := Some (prev_day d)\<rparr>)) \<and>
         next_day (prev_day d) = d \<and>
         \<not> selected (vaccination_overdue_where d (v\<lparr>next_due_date := Some d\<rparr>)) \<and>
         \<not> selected (vaccination_overdue_where today (v\<lparr>next_due_date := None\<rparr>)) \<and>
         (\<exists>up ov. vaccinationsRouter_get_upcoming uid now db =
                     \<lparr>status = 200, body = UpcomingJ up ov\<rparr> \<and>
            set ov = {(x, dog_name g) | x g.
                        x \<in> set (vaccinations db) \<and> g \<in> set (dogs db) \<and>
                        vax_dog_id x = dog_id g \<and> dog_user_id g = uid \<and>
                        (\<exists>t. next_due_date x = Some t \<and> date_less t (toISODate now))})"
proof -
  have before: "selected (vaccination_overdue_where d (v\<lparr>next_due_date := Some (prev_day d)\<rparr>))"
    using assms by (simp add: selected_vaccination_overdue date_less_prev_day)
  have same: "\<not> selected (vaccination_overdue_where d (v\<lparr>next_due_date := Some d\<rparr>))"
    by (simp add: selected_vaccination_overdue date_less_def)
  have null: "\<not> selected (vaccination_overdue_where today (v\<lparr>next_due_date := None\<rparr>))"
    by (simp add: selected_vaccination_overdue)
  have handler: "\<exists>up ov. vaccinationsRouter_get_upcoming uid now db =
                     \<lparr>status = 200, body = UpcomingJ up ov\<rparr> \<and>
            set ov = {(x, dog_name g) | x g.
                        x \<in> set (vaccinations db) \<and> g \<in> set (dogs db) \<and>
                        vax_dog_id x = dog_id g \<and> dog_user_id g = uid \<and>
                        (\<exists>t. next_due_date x = Some t \<and> date_less t (toISODate now))}"
    unfolding vaccinationsRouter_get_upcoming_def Let_def
    by (auto simp: set_order_by selected_vaccination_overdue)
  from before same null handler next_prev_day [OF assms] show ?thesis
    by (simp add: selected_vaccination_overdue)
qed

theorem overdue_iff_target_before_today_witness:
  "valid_date \<lparr>year = 2024, month = 3, day = 1\<rparr> \<and>
   selected (vaccination_overdue_where \<lparr>year = 2024, month = 3, day = 1\<rparr>
               (demo_vaccination\<lparr>next_due_date := Some \<lparr>year = 2024, month = 2, day = 29\<rparr>\<rparr>)) \<and>
   \<not> selected (vaccination_overdue_where \<lparr>year = 2024, month = 3, day = 1\<rparr>
                 (demo_vaccination\<lparr>next_due_date := Some \<lparr>year = 2024, month = 3, day = 1\<rparr>\<rparr>))"
proof -
  have h: "valid_date \<lparr>year = 2024, month = 3, day = 1\<rparr>"
    by (simp add: valid_date_def days_in_month_def)
  have p: "prev_day \<lparr>year = 2024, month = 3, day = 1\<rparr> = \<lparr>year = 2024, month = 2, day = 29\<rparr>"
    by (simp add: prev_day_def days_in_month_def leap_year_def)
  from overdue_iff_target_before_today [OF h, of _ demo_vaccination] h
  show ?thesis
    unfolding p by blast
qed

section \<open>A window of zero or fewer days\<close>

text \<open>
  Claim C7, as amended. A window of zero or fewer days is not rejected; no operation has
  an error of an invalid-configuration kind. With a lead time of 0 the window of the
  event scan is a definite answer, true exactly of today, and the scan's clause selects
  exactly the active events dated today; with a negative lead time the upper bound is
  NULL and no date is inside the window.
\<close>

theorem nonpositive_window_is_classified:
  assumes "n \<le> 0"
  shows "(selected (event_window today n t) \<longleftrightarrow> n = 0 \<and> t = today) \<and>
         event_window today 0 t = Some (t = today) \<and>
         (reminder_days_before e = n \<longrightarrow>
            (selected (event_reminder_where today e) \<longleftrightarrow>
               is_active e \<and> n = 0 \<and> event_date e = today))"
proof -
  have eq: "date_le today x \<and> date_le x today \<longleftrightarrow> x = today" for x
    by (auto intro: date_le_antisym date_le_refl)
  have sel: "selected (event_window today n t) \<longleftrightarrow> n = 0 \<and> t = today"
    using assms eq [of t]
    by (cases "n = 0") (auto simp: selected_event_window sqlite_date_plus_days_def)
  have val: "event_window today 0 t = Some (t = today)"
    using eq [of t]
    by (auto simp: event_window_def sql_between_def sql_ge_def sql_le_def sql_and_def
        sqlite_date_plus_days_def)
  have row: "selected (event_reminder_where today e) \<longleftrightarrow>
               is_active e \<and> n = 0 \<and> event_date e = today"
    if "reminder_days_before e = n"
    using that assms eq [of "event_date e"]
    by (cases "n = 0") (auto simp: selected_event_reminder sqlite_date_plus_days_def)
  from sel val row show ?thesis by blast
qed

theorem nonpositive_window_is_classified_witness:
  "(0::int) \<le> 0 \<and> selected (event_window demo_today 0 demo_today) \<and>
   \<not> selected (event_window demo_today 0 \<lparr>year = 2024, month = 3, day = 16\<rparr>)"
proof -
  have z: "(0::int) \<le> 0"
    by simp
  have other: "\<lparr>year = 2024, month = 3, day = 16\<rparr> \<noteq> demo_today"
    by (simp add: demo_today_def)
  from nonpositive_window_is_classified [OF z, of demo_today demo_today]
  have inside: "selected (event_window demo_today 0 demo_today)"
    by blast
  from nonpositive_window_is_classified
    [OF z, of demo_today "\<lparr>year = 2024, month = 3, day = 16\<rparr>"] other
  have outside: "\<not> selected (event_window demo_today 0 \<lparr>year = 2024, month = 3, day = 16\<rparr>)"
    by blast
  from z inside outside show ?thesis
    by (intro conjI)
qed

text \<open>
  A medication with a frequency, added through \<^verbatim>\<open>POST /api/health/medication\<close> on the
  example store, creates an event with lead time 0 on \<open>demo_today\<close>. The event scan of
  that day reports it, next to the grooming event: the window of zero days is evaluated,
  not refused.
\<close>

theorem zero_day_window_counterexample:
  "checkEventReminders demo_now
     (snd (healthRouter_post_medication 0 demo_medication_request demo_store)) =
     [\<lparr>ue_id = 3, ue_title = ''Grooming'',
       ue_event_date = \<lparr>year = 2024, month = 3, day = 16\<rparr>,
       ue_dog_name = Some ''Rex'', ue_user_id = 0\<rparr>,
      \<lparr>ue_id = 5, ue_title = ''Give Carprofen medication'',
       ue_event_date = \<lparr>year = 2024, month = 3, day = 15\<rparr>,
       ue_dog_name = Some ''Rex'', ue_user_id = 0\<rparr>] \<and>
   map reminder_days_before
     (events (snd (healthRouter_post_medication 0 demo_medication_request demo_store))) = [1, 0]"
proof -
  have m: "snd (healthRouter_post_medication 0 demo_medication_request demo_store) =
      demo_store\<lparr>medications :=
          [\<lparr>med_id = 4, med_dog_id = 1, med_name = ''Carprofen'', med_dosage = None,
            med_frequency = Some ''daily'', med_start_date = demo_today, med_end_date = None,
            med_is_active = True\<rparr>],
        events := [demo_event,
          \<lparr>ev_id = 5, ev_user_id = 0, ev_dog_id = Some 1,
            ev_title = ''Give Carprofen medication'',
            ev_description = Some ''Dosage: As prescribed. Frequency: daily'',
            event_type = ''medication'', event_date = demo_today, is_recurring = True,
            recurrence_pattern = Some ''daily'', reminder_days_before = 0, is_active = True\<rparr>],
        next_uuid := 6\<rparr>"
    by (simp add: healthRouter_post_medication_def demo_medication_request_def truthy_def
        owned_dog_def first_row_def demo_store_def demo_dog_def uuidv4_def Let_def
        or_default_def or_null_def)
  show ?thesis
    unfolding m
    by (simp add: checkEventReminders_def Let_def toISODate_def demo_now_def demo_today_def
      demo_event_def demo_dog_def demo_store_def left_join_dog_name_def clause_defs)
qed

section \<open>Two runs of the daily job\<close>

lemma foldl_mark_vaccinations:
  "vaccinations (foldl (\<lambda>s vax. mark_reminder_sent (uv_id vax) s) db us) =
     map (\<lambda>v. if vax_id v \<in> uv_id ` set us then v\<lparr>reminder_sent := True\<rparr> else v)
       (vaccinations db)"
proof (induction us arbitrary: db)
  case Nil
  show ?case by (simp add: map_idI)
next
  case (Cons u us)
  have "vaccinations (foldl (\<lambda>s vax. mark_reminder_sent (uv_id vax) s)
          (mark_reminder_sent (uv_id u) db) us) =
        map (\<lambda>v. if vax_id v \<in> uv_id ` set us then v\<lparr>reminder_sent := True\<rparr> else v)
          (vaccinations (mark_reminder_sent (uv_id u) db))"
    by (rule Cons.IH)
  then show ?case
    by (auto simp: mark_reminder_sent_def)
qed

lemma foldl_mark_other:
  "dogs (foldl (\<lambda>s vax. mark_reminder_sent (uv_id vax) s) db us) = dogs db \<and>
   dog_allergies (foldl (\<lambda>s vax. mark_reminder_sent (uv_id vax) s) db us) = dog_allergies db \<and>
   dog_health_conditions (foldl (\<lambda>s vax. mark_reminder_sent (uv_id vax) s) db us) =
     dog_health_conditions db \<and>
   weight_history (foldl (\<lambda>s vax. mark_reminder_sent (uv_id vax) s) db us) =
     weight_history db \<and>
   events (foldl (\<lambda>s vax. mark_reminder_sent (uv_id vax) s) db us) = events db \<and>
   medications (foldl (\<lambda>s vax. mark_reminder_sent (uv_id vax) s) db us) = medications db \<and>
   ai_queries (foldl (\<lambda>s vax. mark_reminder_sent (uv_id vax) s) db us) = ai_queries db \<and>
   next_uuid (foldl (\<lambda>s vax. mark_reminder_sent (uv_id vax) s) db us) = next_uuid db"
  by (induction us arbitrary: db) (simp_all add: mark_reminder_sent_def)

lemma filter_key_le_one:
  "distinct (map k xs) \<Longrightarrow> length [x \<leftarrow> xs. a = k x] \<le> Suc 0"
  by (induction xs) (auto simp: filter_empty_conv)

lemma join_inner:
  "concat (map (\<lambda>d. if J d then (if S then [g d] else []) else []) ds) =
     (if S then map g (filter J ds) else [])"
  by (induction ds) auto

lemma upcoming_ids:
  "map uv_id (upcomingVaccinations r t db) =
     concat (map (\<lambda>v. if selected (vaccination_reminder_where r t v)
                       then map (\<lambda>d. vax_id v) [d \<leftarrow> dogs db. vax_dog_id v = dog_id d] else [])
              (vaccinations db))"
  unfolding upcomingVaccinations_def
  by (simp add: map_concat comp_def join_inner if_distrib [of "map uv_id"] cong: if_cong)

lemma set_upcoming_ids:
  "uv_id ` set (upcomingVaccinations r t db) =
     {vax_id v | v. v \<in> set (vaccinations db) \<and> selected (vaccination_reminder_where r t v) \<and>
        (\<exists>d \<in> set (dogs db). vax_dog_id v = dog_id d)}"
proof -
  have "uv_id ` set (upcomingVaccinations r t db) = set (map uv_id (upcomingVaccinations r t db))"
    by simp
  also have "\<dots> = {vax_id v | v. v \<in> set (vaccinations db) \<and>
        selected (vaccination_reminder_where r t v) \<and>
        (\<exists>d \<in> set (dogs db). vax_dog_id v = dog_id d)}"
    unfolding upcoming_ids by auto
  finally show ?thesis .
qed

lemma distinct_joined_ids:
  assumes "distinct (map k vs)" and "distinct (map dog_id ds)"
  shows "distinct (concat (map (\<lambda>v. if S v then map (\<lambda>d. k v) [d \<leftarrow> ds. j v = dog_id d]
                                     else []) vs))"
  using assms(1)
proof (induction vs)
  case Nil
  show ?case by simp
next
  case (Cons v vs)
  have one: "length [d \<leftarrow> ds. j v = dog_id d] \<le> Suc 0"
    using assms(2) by (rule filter_key_le_one)
  have "distinct (map (\<lambda>d. k v) [d \<leftarrow> ds. j v = dog_id d])"
    using one by (cases "[d \<leftarrow> ds. j v = dog_id d]") auto
  with Cons show ?case
    by (auto split: if_splits)
qed

lemma distinct_upcoming:
  "distinct (map vax_id (vaccinations db)) \<Longrightarrow> distinct (map dog_id (dogs db)) \<Longrightarrow>
   distinct (map uv_id (upcomingVaccinations r t db))"
  unfolding upcoming_ids by (rule distinct_joined_ids)

lemma checkEventReminders_cong:
  "events db' = events db \<Longrightarrow> dogs db' = dogs db \<Longrightarrow> toISODate now' = toISODate now \<Longrightarrow>
   checkEventReminders now' db' = checkEventReminders now db"
  by (simp add: checkEventReminders_def)

lemma daily_job_parts:
  "daily_job now db = ((vs, es), db1) \<longleftrightarrow>
     vs = fst (checkVaccinationReminders now db) \<and>
     db1 = snd (checkVaccinationReminders now db) \<and>
     es = checkEventReminders now db1"
  by (auto simp: daily_job_def Let_def split: prod.splits)

lemma marked_ids:
  "map vax_id (map (\<lambda>v. if vax_id v \<in> A then v\<lparr>reminder_sent := True\<rparr> else v) xs) =
     map vax_id xs"
  by (induction xs) auto

text \<open>
  Claim C3. Let the daily job run twice in succession on a store whose vaccinations and
  dogs have unique ids. Over both runs no vaccination is reminded about more than
  once: the first run leaves \<open>reminder_sent\<close> set on every vaccination it reported, and
  the second run reports only vaccinations whose flag it found unset. An event that is
  active and inside its window at both runs is reported by both; when both runs fall on
  the same day the second run reports the very same events as the first.
\<close>

theorem scan_twice:
  assumes dv: "distinct (map vax_id (vaccinations db))"
      and dd: "distinct (map dog_id (dogs db))"
      and r1: "daily_job now1 db = ((vs1, es1), db1)"
      and r2: "daily_job now2 db1 = ((vs2, es2), db2)"
  shows "distinct (map uv_id (vs1 @ vs2)) \<and>
         (\<forall>v \<in> set (vaccinations db1). vax_id v \<in> uv_id ` set vs1 \<longrightarrow> reminder_sent v) \<and>
         (\<forall>u \<in> set vs2. \<forall>v \<in> set (vaccinations db1). vax_id v = uv_id u \<longrightarrow> \<not> reminder_sent v) \<and>
         (\<forall>e \<in> set (events db).
            selected (event_reminder_where (toISODate now1) e) \<and>
            selected (event_reminder_where (toISODate now2) e) \<longrightarrow>
            ev_id e \<in> ue_id ` set es1 \<and> ev_id e \<in> ue_id ` set es2) \<and>
         (toISODate now2 = toISODate now1 \<longrightarrow> es2 = es1)"
proof -
  let ?r1 = "add_days 7 (toISODate now1)" and ?r2 = "add_days 7 (toISODate now2)"
  let ?f = "\<lambda>v. if vax_id v \<in> uv_id ` set vs1 then v\<lparr>reminder_sent := True\<rparr> else v"
  have vs1: "vs1 = upcomingVaccinations ?r1 (toISODate now1) db"
    using r1 by (simp add: daily_job_parts checkVaccinationReminders_fst)
  have db1: "db1 = foldl (\<lambda>s vax. mark_reminder_sent (uv_id vax) s) db vs1"
    using r1 by (simp add: daily_job_parts checkVaccinationReminders_snd)
  have vs2: "vs2 = upcomingVaccinations ?r2 (toISODate now2) db1"
    using r2 by (simp add: daily_job_parts checkVaccinationReminders_fst)
  have db2: "db2 = foldl (\<lambda>s vax. mark_reminder_sent (uv_id vax) s) db1 vs2"
    using r2 by (simp add: daily_job_parts checkVaccinationReminders_snd)
  have es1: "es1 = checkEventReminders now1 db1"
    using r1 by (simp add: daily_job_parts)
  have es2: "es2 = checkEventReminders now2 db2"
    using r2 by (simp add: daily_job_parts)
  have vacc1: "vaccinations db1 = map ?f (vaccinations db)"
    unfolding db1 by (rule foldl_mark_vaccinations)
  have dogs1: "dogs db1 = dogs db" and events1: "events db1 = events db"
    unfolding db1 by (simp_all add: foldl_mark_other)
  have dogs2: "dogs db2 = dogs db" and events2: "events db2 = events db"
    unfolding db2 by (simp_all add: foldl_mark_other dogs1 events1)
  have dv1: "distinct (map vax_id (vaccinations db1))"
    unfolding vacc1 using dv by (simp only: marked_ids)
  have d1: "distinct (map uv_id vs1)"
    unfolding vs1 using dv dd by (rule distinct_upcoming)
  have d2: "distinct (map uv_id vs2)"
    unfolding vs2 using dv1 dd by (simp add: distinct_upcoming dogs1)
  have flagged: "reminder_sent v"
    if "v \<in> set (vaccinations db1)" "vax_id v \<in> uv_id ` set vs1" for v
    using that unfolding vacc1 by (auto split: if_splits)
  have unflagged: "\<not> reminder_sent v"
    if "u \<in> set vs2" "v \<in> set (vaccinations db1)" "vax_id v = uv_id u" for u v
  proof -
    from that(1) have "uv_id u \<in> uv_id ` set (upcomingVaccinations ?r2 (toISODate now2) db1)"
      unfolding vs2 by (rule imageI)
    then obtain v' where v': "v' \<in> set (vaccinations db1)" "uv_id u = vax_id v'"
        "selected (vaccination_reminder_where ?r2 (toISODate now2) v')"
      unfolding set_upcoming_ids by blast
    from dv1 have "inj_on vax_id (set (vaccinations db1))"
      by (simp add: distinct_map)
    from inj_onD [OF this _ that(2) v'(1)] that(3) v'(2) have "v = v'"
      by simp
    with v'(3) show ?thesis
      by (simp add: selected_vaccination_reminder)
  qed
  have disjoint: "uv_id ` set vs1 \<inter> uv_id ` set vs2 = {}"
  proof (rule ccontr)
    assume "uv_id ` set vs1 \<inter> uv_id ` set vs2 \<noteq> {}"
    then obtain x where x: "x \<in> uv_id ` set vs1" "x \<in> uv_id ` set vs2"
      by blast
    from x(2) obtain u where u0: "u \<in> set vs2" "x = uv_id u"
      by (auto simp: image_iff)
    with x(1) have u: "u \<in> set vs2" "uv_id u \<in> uv_id ` set vs1"
      by simp_all
    from u(1) have "uv_id u \<in> uv_id ` set (upcomingVaccinations ?r2 (toISODate now2) db1)"
      unfolding vs2 by (rule imageI)
    then obtain v where v: "v \<in> set (vaccinations db1)" "uv_id u = vax_id v"
      unfolding set_upcoming_ids by blast
    from flagged [OF v(1)] u(2) v(2) have "reminder_sent v" by simp
    moreover from unflagged [OF u(1) v(1)] v(2) have "\<not> reminder_sent v" by simp
    ultimately show False by contradiction
  qed
  have c1: "distinct (map uv_id (vs1 @ vs2))"
    using d1 d2 disjoint by simp
  have c4: "ev_id e \<in> ue_id ` set es1 \<and> ev_id e \<in> ue_id ` set es2"
    if "e \<in> set (events db)" "selected (event_reminder_where (toISODate now1) e)"
       "selected (event_reminder_where (toISODate now2) e)" for e
    unfolding es1 es2 event_ids events1 events2 using that by blast
  have c5: "es2 = es1" if "toISODate now2 = toISODate now1"
    unfolding es1 es2
    by (rule checkEventReminders_cong) (simp_all add: dogs1 dogs2 events1 events2 that)
  show ?thesis
  proof (intro conjI ballI impI)
    show "distinct (map uv_id (vs1 @ vs2))" by (rule c1)
  next
    fix v assume "v \<in> set (vaccinations db1)" "vax_id v \<in> uv_id ` set vs1"
    then show "reminder_sent v" by (rule flagged)
  next
    fix u v assume "u \<in> set vs2" "v \<in> set (vaccinations db1)" "vax_id v = uv_id u"
    then show "\<not> reminder_sent v" by (rule unflagged)
  next
    fix e assume e: "e \<in> set (events db)"
      "selected (event_reminder_where (toISODate now1) e) \<and>
       selected (event_reminder_where (toISODate now2) e)"
    from c4 [of e] e show "ev_id e \<in> ue_id ` set es1" by simp
    from c4 [of e] e show "ev_id e \<in> ue_id ` set es2" by simp
  next
    assume "toISODate now2 = toISODate now1"
    then show "es2 = es1" by (rule c5)
  qed
qed

theorem scan_twice_witness:
  "distinct (map vax_id (vaccinations demo_store)) \<and>
   distinct (map dog_id (dogs demo_store)) \<and>
   daily_job demo_now demo_store =
     (([\<lparr>uv_id = 2, uv_dog_name = ''Rex'', uv_vaccine_name = ''Rabies'',
         uv_next_due_date = Some \<lparr>year = 2024, month = 3, day = 20\<rparr>, uv_user_id = 0\<rparr>],
       [\<lparr>ue_id = 3, ue_title = ''Grooming'',
         ue_event_date = \<lparr>year = 2024, month = 3, day = 16\<rparr>,
         ue_dog_name = Some ''Rex'', ue_user_id = 0\<rparr>]),
      demo_store\<lparr>vaccinations := [demo_vaccination\<lparr>reminder_sent := True\<rparr>]\<rparr>) \<and>
   daily_job demo_now (demo_store\<lparr>vaccinations := [demo_vaccination\<lparr>reminder_sent := True\<rparr>]\<rparr>) =
     (([],
       [\<lparr>ue_id = 3, ue_title = ''Grooming'',
         ue_event_date = \<lparr>year = 2024, month = 3, day = 16\<rparr>,
         ue_dog_name = Some ''Rex'', ue_user_id = 0\<rparr>]),
      demo_store\<lparr>vaccinations := [demo_vaccination\<lparr>reminder_sent := True\<rparr>]\<rparr>) \<and>
   map reminder_sent
     (vaccinations (demo_store\<lparr>vaccinations := [demo_vaccination\<lparr>reminder_sent := True\<rparr>]\<rparr>)) =
     [True]"
proof -
  let ?marked = "demo_store\<lparr>vaccinations := [demo_vaccination\<lparr>reminder_sent := True\<rparr>]\<rparr>"
  let ?uv = "\<lparr>uv_id = 2, uv_dog_name = ''Rex'', uv_vaccine_name = ''Rabies'',
         uv_next_due_date = Some \<lparr>year = 2024, month = 3, day = 20\<rparr>, uv_user_id = 0\<rparr>"
  let ?ue = "\<lparr>ue_id = 3, ue_title = ''Grooming'',
         ue_event_date = \<lparr>year = 2024, month = 3, day = 16\<rparr>,
         ue_dog_name = Some ''Rex'', ue_user_id = 0\<rparr>"
  have h1: "distinct (map vax_id (vaccinations demo_store))"
    and h2: "distinct (map dog_id (dogs demo_store))"
    by (simp_all add: demo_store_def)
  have q1: "upcomingVaccinations (add_days 7 (toISODate demo_now)) (toISODate demo_now) demo_store
      = [?uv]"
    by (simp add: toISODate_def demo_now_def demo_today_def demo_week upcomingVaccinations_def
        demo_store_def demo_vaccination_def demo_dog_def clause_defs)
  have q2: "upcomingVaccinations (add_days 7 (toISODate demo_now)) (toISODate demo_now) ?marked
      = []"
    by (simp add: toISODate_def demo_now_def demo_today_def demo_week upcomingVaccinations_def
        demo_store_def demo_vaccination_def demo_dog_def clause_defs)
  have r1: "daily_job demo_now demo_store = (([?uv], [?ue]), ?marked)"
    unfolding daily_job_parts checkVaccinationReminders_snd checkVaccinationReminders_fst q1
    by (simp add: demo_events_reported mark_reminder_sent_def demo_store_def demo_vaccination_def)
  have r2: "daily_job demo_now ?marked = (([], [?ue]), ?marked)"
    unfolding daily_job_parts checkVaccinationReminders_snd checkVaccinationReminders_fst q2
    by (simp add: demo_events_reported demo_store_def)
  from scan_twice [OF h1 h2 r1 r2]
  have "\<forall>v \<in> set (vaccinations ?marked). vax_id v \<in> uv_id ` set [?uv] \<longrightarrow> reminder_sent v"
    by (rule conjunct1 [OF conjunct2])
  then have "map reminder_sent (vaccinations ?marked) = [True]"
    by (simp add: demo_store_def demo_vaccination_def)
  with h1 h2 r1 r2 show ?thesis
    by (intro conjI)
qed

section \<open>Anniversary events\<close>














text \<open>What the statements of \<^verbatim>\<open>POST /api/dogs\<close> do to the tables.\<close>

lemma for_each_fst:
  assumes "\<And>x db. fst (f x db) = P x"
  shows "fst (for_each f xs db) = list_all P xs"
  by (induction xs arbitrary: db) (auto simp: split_beta Let_def assms)

lemma for_each_keeps:
  assumes "\<And>x db. g (snd (f x db)) = g db"
  shows "g (snd (for_each f xs db)) = g db"
  by (induction xs arbitrary: db) (auto simp: split_beta Let_def assms)

lemma for_each_uuid:
  assumes "\<And>x db. next_uuid db \<le> next_uuid (snd (f x db))"
  shows "next_uuid db \<le> next_uuid (snd (for_each f xs db))"
proof (induction xs arbitrary: db)
  case Nil
  show ?case by simp
next
  case (Cons x xs)
  have "next_uuid db \<le> next_uuid (snd (f x db))"
    by (rule assms)
  also have "\<dots> \<le> next_uuid (snd (for_each f xs (snd (f x db))))"
    by (rule Cons.IH)
  finally show ?case
    using assms [of db x] by (simp add: split_beta Let_def)
qed

lemma insert_allergy_fst: "fst (insert_allergy g a db) = allergy_accepted a"
  by (simp add: insert_allergy_def uuidv4_def Let_def allergy_accepted_def split: option.splits)

lemma insert_condition_fst: "fst (insert_condition g c db) = condition_accepted c"
  by (simp add: insert_condition_def uuidv4_def Let_def condition_accepted_def
      split: option.splits)

lemma insert_allergy_keeps:
  "events (snd (insert_allergy g a db)) = events db"
  "vaccinations (snd (insert_allergy g a db)) = vaccinations db"
  "dogs (snd (insert_allergy g a db)) = dogs db"
  "next_uuid db \<le> next_uuid (snd (insert_allergy g a db))"
  by (simp_all add: insert_allergy_def uuidv4_def Let_def split: option.splits)

lemma insert_condition_keeps:
  "events (snd (insert_condition g c db)) = events db"
  "vaccinations (snd (insert_condition g c db)) = vaccinations db"
  "dogs (snd (insert_condition g c db)) = dogs db"
  "next_uuid db \<le> next_uuid (snd (insert_condition g c db))"
  by (simp_all add: insert_condition_def uuidv4_def Let_def split: option.splits)

lemmas loop_facts =
  for_each_fst [of "insert_allergy g" allergy_accepted, OF insert_allergy_fst]
  for_each_fst [of "insert_condition g" condition_accepted, OF insert_condition_fst]
  for_each_keeps [of events "insert_allergy g", OF insert_allergy_keeps(1)]
  for_each_keeps [of events "insert_condition g", OF insert_condition_keeps(1)]
  for_each_keeps [of vaccinations "insert_allergy g", OF insert_allergy_keeps(2)]
  for_each_keeps [of vaccinations "insert_condition g", OF insert_condition_keeps(2)]
  for_each_keeps [of dogs "insert_allergy g", OF insert_allergy_keeps(3)]
  for_each_keeps [of dogs "insert_condition g", OF insert_condition_keeps(3)]
  for_each_uuid [of "insert_allergy g", OF insert_allergy_keeps(4)]
  for_each_uuid [of "insert_condition g", OF insert_condition_keeps(4)]
  for g







section \<open>Companion events\<close>

text \<open>
  Claim C6. \<^verbatim>\<open>POST /api/vaccinations\<close> answers 201 exactly when the three required fields
  are present and the caller owns the dog; otherwise it leaves the store as it was. On
  201 it appends one vaccination row, with the request's due date and an unset reminder
  flag, and it appends one event exactly when the request has a due date: of type
  vet_appointment, dated on the due date, with a lead time of 14 days. Without a due
  date no event row is created.
\<close>

theorem companion_event_iff_next_due_date:
  assumes "vaccinationsRouter_post uid rq db = (res, db')"
  shows "(status res = 201 \<longleftrightarrow>
            (\<exists>dogId adm dog. vq_dog_id rq = Some dogId \<and> vq_date_administered rq = Some adm \<and>
               truthy (vq_vaccine_name rq) \<and> owned_dog dogId uid db = Some dog)) \<and>
         (status res \<noteq> 201 \<longrightarrow> db' = db) \<and>
         (status res = 201 \<longrightarrow>
            (\<exists>v. vaccinations db' = vaccinations db @ [v] \<and>
                 vax_id v = next_uuid db \<and> Some (vax_dog_id v) = vq_dog_id rq \<and>
                 next_due_date v = vq_next_due_date rq \<and> \<not> reminder_sent v) \<and>
            events db' = events db @
              (case vq_next_due_date rq of
                 None \<Rightarrow> []
               | Some due \<Rightarrow>
                   [\<lparr>ev_id = Suc (next_uuid db), ev_user_id = uid, ev_dog_id = vq_dog_id rq,
                     ev_title = or_default (vq_vaccine_name rq) [] @ '' Vaccination Due'',
                     ev_description = Some ''Vaccination reminder for your dog'',
                     event_type = ''vet_appointment'', event_date = due,
                     is_recurring = False, recurrence_pattern = None,
                     reminder_days_before = 14, is_active = True\<rparr>]))"
  using assms
  by (auto simp: vaccinationsRouter_post_def uuidv4_def Let_def
      split: option.splits if_splits prod.splits)

theorem companion_event_iff_next_due_date_witness:
  "status (fst (vaccinationsRouter_post 0 demo_vaccination_request demo_store)) = 201 \<and>
   map (\<lambda>e. (event_type e, event_date e, reminder_days_before e))
     (events (snd (vaccinationsRouter_post 0 demo_vaccination_request demo_store))) =
     [(''grooming'', \<lparr>year = 2024, month = 3, day = 16\<rparr>, 1),
      (''vet_appointment'', \<lparr>year = 2025, month = 3, day = 15\<rparr>, 14)]"
proof -
  have s: "status (fst (vaccinationsRouter_post 0 demo_vaccination_request demo_store)) = 201"
    by (simp add: vaccinationsRouter_post_def demo_vaccination_request_def demo_store_def
        demo_dog_def truthy_def owned_dog_def first_row_def uuidv4_def Let_def)
  from companion_event_iff_next_due_date [OF prod.collapse [symmetric],
      of 0 demo_vaccination_request demo_store] s
  have "events (snd (vaccinationsRouter_post 0 demo_vaccination_request demo_store)) =
      events demo_store @
        (case vq_next_due_date demo_vaccination_request of
           None \<Rightarrow> []
         | Some due \<Rightarrow>
             [\<lparr>ev_id = Suc (next_uuid demo_store), ev_user_id = 0,
               ev_dog_id = vq_dog_id demo_vaccination_request,
               ev_title = or_default (vq_vaccine_name demo_vaccination_request) []
                            @ '' Vaccination Due'',
               ev_description = Some ''Vaccination reminder for your dog'',
               event_type = ''vet_appointment'', event_date = due,
               is_recurring = False, recurrence_pattern = None,
               reminder_days_before = 14, is_active = True\<rparr>])"
    by blast
  then have "map (\<lambda>e. (event_type e, event_date e, reminder_days_before e))
     (events (snd (vaccinationsRouter_post 0 demo_vaccination_request demo_store))) =
     [(''grooming'', \<lparr>year = 2024, month = 3, day = 16\<rparr>, 1),
      (''vet_appointment'', \<lparr>year = 2025, month = 3, day = 15\<rparr>, 14)]"
    by (simp add: demo_vaccination_request_def demo_store_def demo_event_def)
  with s show ?thesis by (intro conjI)
qed

text \<open>
  Claim C10, as amended. \<^verbatim>\<open>POST /api/events\<close> answers 201 exactly when the request has a
  date and a title, names no dog or a dog of the caller, has a type of the column's list
  or none, and does not give \<^verbatim>\<open>true\<close> as lead time; otherwise it creates no event. The
  event created has type custom when the request names no type, and lead time 1 when
  the lead time is missing, \<^verbatim>\<open>null\<close>, \<^verbatim>\<open>false\<close> or the number 0; any other number is stored
  as given, so that no number gives an event the lead time 0. The endpoint does not
  require a number, though: the text of a numeral is stored as the integer it denotes,
  and the text \<^verbatim>\<open>"0"\<close>, which is truthy, sets a lead time of 0.
  \<^verbatim>\<open>POST /api/health/medication\<close> answers 201 exactly when dog, name and start date are
  given and the caller owns the dog, and with a frequency it then creates an event of
  type medication with lead time 0.
\<close>

theorem event_creation_defaults:
  assumes "eventsRouter_post uid rq db = (res, db')"
      and "healthRouter_post_medication uid mq db = (mres, mdb)"
  shows "(status res = 201 \<longleftrightarrow>
            eq_event_date rq \<noteq> None \<and> truthy (eq_title rq) \<and>
            (\<forall>i. eq_dog_id rq = Some i \<longrightarrow> owned_dog i uid db \<noteq> None) \<and>
            check_event_type (or_default (eq_event_type rq) ''custom'') \<and>
            eq_reminder_days_before rq \<noteq> Boolean True) \<and>
         (status res \<noteq> 201 \<longrightarrow> events db' = events db) \<and>
         (status res = 201 \<longrightarrow>
            (\<exists>e. events db' = events db @ [e] \<and>
               (\<not> truthy (eq_event_type rq) \<longrightarrow> event_type e = ''custom'') \<and>
               (eq_reminder_days_before rq \<in> {Undefined, Null, Boolean False, Number 0} \<longrightarrow>
                  reminder_days_before e = 1) \<and>
               (\<forall>n. eq_reminder_days_before rq = Number n \<and> n \<noteq> 0 \<longrightarrow>
                  reminder_days_before e = n) \<and>
               (\<forall>n. eq_reminder_days_before rq = Number n \<longrightarrow> reminder_days_before e \<noteq> 0) \<and>
               (\<forall>w. eq_reminder_days_before rq = Numeral_text w \<longrightarrow>
                  reminder_days_before e = sint w))) \<and>
         (status mres = 201 \<longleftrightarrow>
            (\<exists>dogId start dog. mq_dog_id mq = Some dogId \<and> mq_start_date mq = Some start \<and>
               truthy (mq_name mq) \<and> owned_dog dogId uid db = Some dog)) \<and>
         (status mres = 201 \<and> truthy (mq_frequency mq) \<longrightarrow>
            (\<exists>e. events mdb = events db @ [e] \<and> event_type e = ''medication'' \<and>
               reminder_days_before e = 0))"
proof -
  have s: "status res = 201 \<longleftrightarrow>
            eq_event_date rq \<noteq> None \<and> truthy (eq_title rq) \<and>
            (\<forall>i. eq_dog_id rq = Some i \<longrightarrow> owned_dog i uid db \<noteq> None) \<and>
            check_event_type (or_default (eq_event_type rq) ''custom'') \<and>
            eq_reminder_days_before rq \<noteq> Boolean True"
    using assms(1)
    by (auto simp: eventsRouter_post_def uuidv4_def Let_def reminder_days_before_column_def
        split: option.splits if_splits prod.splits js_value.splits)
  have a: "status res \<noteq> 201 \<longrightarrow> events db' = events db"
    using assms(1)
    by (auto simp: eventsRouter_post_def uuidv4_def Let_def
        split: option.splits if_splits prod.splits)
  have b: "status res = 201 \<longrightarrow>
            (\<exists>e. events db' = events db @ [e] \<and>
               (\<not> truthy (eq_event_type rq) \<longrightarrow> event_type e = ''custom'') \<and>
               (eq_reminder_days_before rq \<in> {Undefined, Null, Boolean False, Number 0} \<longrightarrow>
                  reminder_days_before e = 1) \<and>
               (\<forall>n. eq_reminder_days_before rq = Number n \<and> n \<noteq> 0 \<longrightarrow>
                  reminder_days_before e = n) \<and>
               (\<forall>n. eq_reminder_days_before rq = Number n \<longrightarrow> reminder_days_before e \<noteq> 0) \<and>
               (\<forall>w. eq_reminder_days_before rq = Numeral_text w \<longrightarrow>
                  reminder_days_before e = sint w))"
    using assms(1)
    by (auto simp: eventsRouter_post_def uuidv4_def Let_def or_default_def truthy_def
        reminder_days_before_column_def
        split: option.splits if_splits prod.splits js_value.splits)
  have m: "status mres = 201 \<longleftrightarrow>
            (\<exists>dogId start dog. mq_dog_id mq = Some dogId \<and> mq_start_date mq = Some start \<and>
               truthy (mq_name mq) \<and> owned_dog dogId uid db = Some dog)"
    using assms(2)
    by (auto simp: healthRouter_post_medication_def uuidv4_def Let_def
        split: option.splits if_splits prod.splits)
  have c: "status mres = 201 \<and> truthy (mq_frequency mq) \<longrightarrow>
            (\<exists>e. events mdb = events db @ [e] \<and> event_type e = ''medication'' \<and>
               reminder_days_before e = 0)"
    using assms(2)
    by (auto simp: healthRouter_post_medication_def uuidv4_def Let_def
        split: option.splits if_splits prod.splits)
  from s a b m c show ?thesis by (intro conjI)
qed

text \<open>
  On the example store: an event asked for with the number 0 as lead time is created
  with lead time 1, and the medication with a daily frequency is accepted and brings an
  event with lead time 0.
\<close>

theorem event_creation_defaults_witness:
  "status (fst (eventsRouter_post 0 demo_event_request demo_store)) = 201 \<and>
   map (\<lambda>e. (event_type e, reminder_days_before e))
     (events (snd (eventsRouter_post 0 demo_event_request demo_store))) =
     [(''grooming'', 1), (''custom'', 1)] \<and>
   status (fst (healthRouter_post_medication 0 demo_medication_request demo_store)) = 201 \<and>
   map (\<lambda>e. (event_type e, reminder_days_before e))
     (events (snd (healthRouter_post_medication 0 demo_medication_request demo_store))) =
     [(''grooming'', 1), (''medication'', 0)]"
proof -
  note t = event_creation_defaults [OF prod.collapse [symmetric] prod.collapse [symmetric],
      of 0 demo_event_request demo_store demo_medication_request]
  have h: "eq_event_date demo_event_request \<noteq> None \<and> truthy (eq_title demo_event_request) \<and>
      (\<forall>i. eq_dog_id demo_event_request = Some i \<longrightarrow> owned_dog i 0 demo_store \<noteq> None) \<and>
      check_event_type (or_default (eq_event_type demo_event_request) ''custom'') \<and>
      eq_reminder_days_before demo_event_request \<noteq> Boolean True"
    by (simp add: demo_event_request_def truthy_def or_default_def check_event_type_def)
  from t h have s: "status (fst (eventsRouter_post 0 demo_event_request demo_store)) = 201"
    by blast
  from mp [OF t [THEN conjunct2, THEN conjunct2, THEN conjunct1] s]
  obtain e where e: "events (snd (eventsRouter_post 0 demo_event_request demo_store)) =
      events demo_store @ [e]"
    "\<not> truthy (eq_event_type demo_event_request) \<longrightarrow> event_type e = ''custom''"
    "eq_reminder_days_before demo_event_request \<in> {Undefined, Null, Boolean False, Number 0}
       \<longrightarrow> reminder_days_before e = 1"
    by (elim exE conjE) (rule that, assumption+)
  then have "event_type e = ''custom''" and "reminder_days_before e = 1"
    by (simp_all add: demo_event_request_def truthy_def)
  with e(1) have c1: "map (\<lambda>e. (event_type e, reminder_days_before e))
     (events (snd (eventsRouter_post 0 demo_event_request demo_store))) =
     [(''grooming'', 1), (''custom'', 1)]"
    by (simp add: demo_store_def demo_event_def)
  have g: "\<exists>dogId start dog. mq_dog_id demo_medication_request = Some dogId \<and>
      mq_start_date demo_medication_request = Some start \<and>
      truthy (mq_name demo_medication_request) \<and> owned_dog dogId 0 demo_store = Some dog"
    by (simp add: demo_medication_request_def truthy_def owned_dog_def first_row_def
        demo_store_def demo_dog_def)
  from t g
  have ms: "status (fst (healthRouter_post_medication 0 demo_medication_request demo_store)) = 201"
    by blast
  have f: "truthy (mq_frequency demo_medication_request)"
    by (simp add: demo_medication_request_def truthy_def)
  from t ms f
  obtain m where m: "events (snd (healthRouter_post_medication 0 demo_medication_request
                                    demo_store)) = events demo_store @ [m]"
    "event_type m = ''medication''" "reminder_days_before m = 0"
    by blast
  then have c2: "map (\<lambda>e. (event_type e, reminder_days_before e))
     (events (snd (healthRouter_post_medication 0 demo_medication_request demo_store))) =
     [(''grooming'', 1), (''medication'', 0)]"
    by (simp add: demo_store_def demo_event_def)
  from s c1 ms c2 show ?thesis by (intro conjI)
qed

text \<open>
  The same request with the text \<^verbatim>\<open>"0"\<close> in place of the number 0: the event is created
  with lead time 0.
\<close>

theorem text_zero_counterexample:
  "status (fst (eventsRouter_post 0 text_zero_event_request demo_store)) = 201 \<and>
   map (\<lambda>e. (event_type e, reminder_days_before e))
     (events (snd (eventsRouter_post 0 text_zero_event_request demo_store))) =
     [(''grooming'', 1), (''custom'', 0)]"
  by (simp add: eventsRouter_post_def text_zero_event_request_def demo_event_request_def
      demo_today_def truthy_def uuidv4_def Let_def or_default_def or_null_def
      check_event_type_def reminder_days_before_column_def demo_store_def demo_event_def)

section \<open>Food search\<close>

lemmas text_defs = LOWER_def lower_char_def char_of_def bit_Suc_0_iff is_space_def

text \<open>The table after \<^verbatim>\<open>populateFoodDatabase\<close> on an empty database, row by row.\<close>

lemma seeded_rows: "seeded_food_database =
 [\<lparr>food_id = ''carrots'', food_name = ''Carrots'', category = ''vegetable'', is_safe = True, safety_level = ''safe''\<rparr>,
  \<lparr>food_id = ''blueberries'', food_name = ''Blueberries'', category = ''fruit'', is_safe = True, safety_level = ''safe''\<rparr>,
  \<lparr>food_id = ''chicken'', food_name = ''Chicken'', category = ''protein'', is_safe = True, safety_level = ''safe''\<rparr>,
  \<lparr>food_id = ''peanut-butter'', food_name = ''Peanut Butter'', category = ''other'', is_safe = True, safety_level = ''safe_in_moderation''\<rparr>,
  \<lparr>food_id = ''pumpkin'', food_name = ''Pumpkin'', category = ''vegetable'', is_safe = True, safety_level = ''safe''\<rparr>,
  \<lparr>food_id = ''sweet-potato'', food_name = ''Sweet Potato'', category = ''vegetable'', is_safe = True, safety_level = ''safe''\<rparr>,
  \<lparr>food_id = ''apples'', food_name = ''Apples'', category = ''fruit'', is_safe = True, safety_level = ''safe''\<rparr>,
  \<lparr>food_id = ''salmon'', food_name = ''Salmon'', category = ''protein'', is_safe = True, safety_level = ''safe''\<rparr>,
  \<lparr>food_id = ''rice'', food_name = ''Rice'', category = ''grain'', is_safe = True, safety_level = ''safe''\<rparr>,
  \<lparr>food_id = ''watermelon'', food_name = ''Watermelon'', category = ''fruit'', is_safe = True, safety_level = ''safe''\<rparr>,
  \<lparr>food_id = ''green-beans'', food_name = ''Green Beans'', category = ''vegetable'', is_safe = True, safety_level = ''safe''\<rparr>,
  \<lparr>food_id = ''eggs'', food_name = ''Eggs'', category = ''protein'', is_safe = True, safety_level = ''safe''\<rparr>,
  \<lparr>food_id = ''chocolate'', food_name = ''Chocolate'', category = ''toxic'', is_safe = False, safety_level = ''toxic''\<rparr>,
  \<lparr>food_id = ''grapes'', food_name = ''Grapes'', category = ''toxic'', is_safe = False, safety_level = ''dangerous''\<rparr>,
  \<lparr>food_id = ''raisins'', food_name = ''Raisins'', category = ''toxic'', is_safe = False, safety_level = ''dangerous''\<rparr>,
  \<lparr>food_id = ''onions'', food_name = ''Onions'', category = ''toxic'', is_safe = False, safety_level = ''toxic''\<rparr>,
  \<lparr>food_id = ''garlic'', food_name = ''Garlic'', category = ''toxic'', is_safe = False, safety_level = ''toxic''\<rparr>,
  \<lparr>food_id = ''xylitol'', food_name = ''Xylitol'', category = ''toxic'', is_safe = False, safety_level = ''dangerous''\<rparr>,
  \<lparr>food_id = ''alcohol'', food_name = ''Alcohol'', category = ''toxic'', is_safe = False, safety_level = ''dangerous''\<rparr>,
  \<lparr>food_id = ''avocado'', food_name = ''Avocado'', category = ''toxic'', is_safe = False, safety_level = ''toxic''\<rparr>,
  \<lparr>food_id = ''macadamia-nuts'', food_name = ''Macadamia Nuts'', category = ''toxic'', is_safe = False, safety_level = ''toxic''\<rparr>,
  \<lparr>food_id = ''caffeine'', food_name = ''Caffeine'', category = ''toxic'', is_safe = False, safety_level = ''toxic''\<rparr>,
  \<lparr>food_id = ''raw-yeast-dough'', food_name = ''Raw Yeast Dough'', category = ''toxic'', is_safe = False, safety_level = ''dangerous''\<rparr>,
  \<lparr>food_id = ''cooked-bones'', food_name = ''Cooked Bones'', category = ''toxic'', is_safe = False, safety_level = ''dangerous''\<rparr>]"
  by (simp add: seeded_food_database_def populateFoodDatabase_def foodData_def
      insert_or_ignore_def LOWER_def lower_char_def char_of_def bit_Suc_0_iff is_space_def)

lemma food_search_where_lower:
  "food_search_where q r \<longleftrightarrow>
     like (''%'' @ LOWER q @ ''%'') (LOWER (food_name r)) \<or>
     like (''%'' @ LOWER q @ ''%'') (LOWER (category r))"
  by (simp add: food_search_where_def LOWER_def lower_char_def)

lemma chocolate_rows:
  "[r \<leftarrow> seeded_food_database.
      like ''%chocolate%'' (LOWER (food_name r)) \<or> like ''%chocolate%'' (LOWER (category r))] =
   [\<lparr>food_id = ''chocolate'', food_name = ''Chocolate'', category = ''toxic'',
     is_safe = False, safety_level = ''toxic''\<rparr>]"
  unfolding seeded_rows by (simp add: text_defs)

lemma pizza_rows:
  "[r \<leftarrow> seeded_food_database.
      like ''%pizza%'' (LOWER (food_name r)) \<or> like ''%pizza%'' (LOWER (category r))] = []"
  unfolding seeded_rows by (simp add: text_defs)

text \<open>
  Claim C9. On the seeded table, a search for any text that reads \<^verbatim>\<open>chocolate\<close> once put
  in lower case (\<^verbatim>\<open>CHOCOLATE\<close>, \<^verbatim>\<open>Chocolate\<close>, \<^verbatim>\<open>chocolate\<close> and every other mix of
  cases) returns exactly one row, the entry Chocolate with safety level toxic. On any
  table, a search for a non-empty text that no row matches returns the empty list of
  results, not an error.
\<close>

theorem chocolate_search:
  "(LOWER q = ''chocolate'' \<longrightarrow>
      foodRouter_get_search (Some q) seeded_food_database =
        FoodResults
          [\<lparr>food_id = ''chocolate'', food_name = ''Chocolate'', category = ''toxic'',
            is_safe = False, safety_level = ''toxic''\<rparr>] q) \<and>
   (s \<noteq> [] \<and> (\<forall>r \<in> set tbl. \<not> food_search_where s r) \<longrightarrow>
      foodRouter_get_search (Some s) tbl = FoodResults [] s)"
proof (intro conjI impI)
  assume q: "LOWER q = ''chocolate''"
  then have ne: "q \<noteq> []"
    by (auto simp: LOWER_def)
  have "[r \<leftarrow> seeded_food_database. food_search_where q r] =
      [\<lparr>food_id = ''chocolate'', food_name = ''Chocolate'', category = ''toxic'',
        is_safe = False, safety_level = ''toxic''\<rparr>]"
    unfolding food_search_where_lower q using chocolate_rows by simp
  with ne show "foodRouter_get_search (Some q) seeded_food_database =
        FoodResults
          [\<lparr>food_id = ''chocolate'', food_name = ''Chocolate'', category = ''toxic'',
            is_safe = False, safety_level = ''toxic''\<rparr>] q"
    by (simp add: foodRouter_get_search_def order_by_def)
next
  assume "s \<noteq> [] \<and> (\<forall>r \<in> set tbl. \<not> food_search_where s r)"
  then have "s \<noteq> []" and "[r \<leftarrow> tbl. food_search_where s r] = []"
    by (simp_all add: filter_empty_conv)
  then show "foodRouter_get_search (Some s) tbl = FoodResults [] s"
    by (simp add: foodRouter_get_search_def order_by_def)
qed

theorem chocolate_search_witness:
  "LOWER ''CHOCOLATE'' = ''chocolate'' \<and>
   foodRouter_get_search (Some ''CHOCOLATE'') seeded_food_database =
     FoodResults
       [\<lparr>food_id = ''chocolate'', food_name = ''Chocolate'', category = ''toxic'',
         is_safe = False, safety_level = ''toxic''\<rparr>] ''CHOCOLATE'' \<and>
   foodRouter_get_search (Some ''pizza'') seeded_food_database = FoodResults [] ''pizza''"
proof -
  have h1: "LOWER ''CHOCOLATE'' = ''chocolate''"
    by (simp add: text_defs)
  have "[r \<leftarrow> seeded_food_database. food_search_where ''pizza'' r] = []"
    unfolding food_search_where_lower using pizza_rows by (simp add: text_defs)
  then have h2: "''pizza'' \<noteq> [] \<and>
      (\<forall>r \<in> set seeded_food_database. \<not> food_search_where ''pizza'' r)"
    by (simp add: filter_empty_conv)
  from chocolate_search [of "''CHOCOLATE''" "''pizza''" seeded_food_database] h1 h2
  show ?thesis
    by (intro conjI) simp_all
qed

section \<open>The reminder flag over time\<close>

text \<open>What each operation does to the vaccinations and to the supply of ids.\<close>

lemma flags_kept_same:
  "vaccinations db' = vaccinations db \<Longrightarrow> next_uuid db \<le> next_uuid db' \<Longrightarrow> flags_kept db db'"
  by (auto simp: flags_kept_def)

lemma for_each_allergy_uuid:
  "n \<le> next_uuid db \<Longrightarrow> n \<le> next_uuid (snd (for_each (insert_allergy g) xs db))"
  using loop_facts(9) [of db g xs] by simp

lemma for_each_condition_uuid:
  "n \<le> next_uuid db \<Longrightarrow> n \<le> next_uuid (snd (for_each (insert_condition g) xs db))"
  using loop_facts(10) [of db g xs] by simp

lemma dogsRouter_post_vaccinations:
  "vaccinations (snd (dogsRouter_post tz uid rq now db)) = vaccinations db \<and>
   next_uuid db \<le> next_uuid (snd (dogsRouter_post tz uid rq now db))"
  by (cases "rq_allergies rq"; cases "rq_health_conditions rq"; cases "rq_weight rq";
      cases "rq_date_of_birth rq"; cases "rq_adoption_date rq";
      auto simp: dogsRouter_post_def insert_yearly_event_def insert_weight_def uuidv4_def
        Let_def split_beta loop_facts
        intro!: le_SucI for_each_allergy_uuid for_each_condition_uuid)

lemma eventsRouter_post_vaccinations:
  "vaccinations (snd (eventsRouter_post uid rq db)) = vaccinations db \<and>
   next_uuid db \<le> next_uuid (snd (eventsRouter_post uid rq db))"
  by (simp add: eventsRouter_post_def uuidv4_def Let_def split: option.splits)

lemma healthRouter_post_medication_vaccinations:
  "vaccinations (snd (healthRouter_post_medication uid rq db)) = vaccinations db \<and>
   next_uuid db \<le> next_uuid (snd (healthRouter_post_medication uid rq db))"
  by (simp add: healthRouter_post_medication_def uuidv4_def Let_def split: option.splits)

lemma aiRouter_post_ask_vaccinations:
  "vaccinations (snd (aiRouter_post_ask f uid rq now db)) = vaccinations db \<and>
   next_uuid db \<le> next_uuid (snd (aiRouter_post_ask f uid rq now db))"
  by (simp add: aiRouter_post_ask_def uuidv4_def Let_def split: option.splits)

lemma dogsRouter_delete_kept: "flags_kept db (snd (dogsRouter_delete uid i db))"
  by (auto simp: dogsRouter_delete_def delete_dog_def flags_kept_def split: option.splits)

lemma vaccinationsRouter_post_kept: "flags_kept db (snd (vaccinationsRouter_post uid rq db))"
  by (auto simp: vaccinationsRouter_post_def uuidv4_def Let_def flags_kept_def
      split: option.splits)

lemma vaccinationsRouter_put_flags:
  "map reminder_sent (vaccinations (snd (vaccinationsRouter_put uid i rq db))) =
     map reminder_sent (vaccinations db) \<and>
   map vax_id (vaccinations (snd (vaccinationsRouter_put uid i rq db))) =
     map vax_id (vaccinations db) \<and>
   next_uuid (snd (vaccinationsRouter_put uid i rq db)) = next_uuid db"
  by (simp add: vaccinationsRouter_put_def Let_def comp_def split: option.splits)

lemma vaccinationsRouter_put_kept: "flags_kept db (snd (vaccinationsRouter_put uid i rq db))"
  by (auto simp: vaccinationsRouter_put_def Let_def flags_kept_def split: option.splits)

lemma vaccinationsRouter_delete_kept: "flags_kept db (snd (vaccinationsRouter_delete uid i db))"
  by (auto simp: vaccinationsRouter_delete_def flags_kept_def split: option.splits)

lemma daily_job_snd:
  "snd (daily_job now db) =
     foldl (\<lambda>s vax. mark_reminder_sent (uv_id vax) s) db (fst (checkVaccinationReminders now db))"
  by (simp add: daily_job_def Let_def checkVaccinationReminders_def)

lemma daily_job_kept: "flags_kept db (snd (daily_job now db))"
  by (auto simp: flags_kept_def daily_job_snd foldl_mark_vaccinations foldl_mark_other)

lemma perform_kept: "flags_kept db (perform x db)"
  by (cases x)
     (simp_all add: flags_kept_same dogsRouter_post_vaccinations eventsRouter_post_vaccinations
       healthRouter_post_medication_vaccinations aiRouter_post_ask_vaccinations
       dogsRouter_delete_kept vaccinationsRouter_post_kept vaccinationsRouter_put_kept
       vaccinationsRouter_delete_kept daily_job_kept)

lemma run_keeps_flag:
  assumes "i < next_uuid db"
      and "\<forall>v \<in> set (vaccinations db). vax_id v = i \<longrightarrow> reminder_sent v"
  shows "\<forall>v \<in> set (vaccinations (run xs db)). vax_id v = i \<longrightarrow> reminder_sent v"
  using assms
proof (induction xs arbitrary: db)
  case Nil
  then show ?case by simp
next
  case (Cons x xs)
  have k: "flags_kept db (perform x db)"
    by (rule perform_kept)
  have "i < next_uuid (perform x db)"
    using k Cons.prems(1) by (simp add: flags_kept_def)
  moreover have "\<forall>v \<in> set (vaccinations (perform x db)). vax_id v = i \<longrightarrow> reminder_sent v"
    using k Cons.prems by (fastforce simp: flags_kept_def)
  ultimately show ?case
    using Cons.IH [of "perform x db"] by simp
qed


text \<open>
  Claim C5. Along every sequence of the modelled operations, starting from a store
  whose ids are well-formed, a vaccination whose \<open>reminder_sent\<close> is set keeps it set for
  as long as the row exists. The update endpoint leaves the flag of every row as it
  was, and the daily job leaves every row in place and never turns a set flag off.
\<close>

theorem reminder_flag_is_one_way:
  assumes "keys_ok db" and "v \<in> set (vaccinations db)" and "reminder_sent v"
      and "v' \<in> set (vaccinations (run xs db))" and "vax_id v' = vax_id v"
  shows "reminder_sent v' \<and>
         map reminder_sent (vaccinations (snd (vaccinationsRouter_put uid i rq db))) =
           map reminder_sent (vaccinations db) \<and>
         list_all2 (\<lambda>u w. vax_id w = vax_id u \<and> (reminder_sent u \<longrightarrow> reminder_sent w))
           (vaccinations db) (vaccinations (snd (daily_job now db)))"
proof -
  from assms(1) have inj: "inj_on vax_id (set (vaccinations db))"
    by (simp add: keys_ok_def distinct_map)
  have all: "\<forall>u \<in> set (vaccinations db). vax_id u = vax_id v \<longrightarrow> reminder_sent u"
  proof (intro ballI impI)
    fix u assume "u \<in> set (vaccinations db)" "vax_id u = vax_id v"
    with inj assms(2) have "u = v" by (auto dest: inj_onD)
    with assms(3) show "reminder_sent u" by simp
  qed
  from assms(1,2) have "vax_id v < next_uuid db"
    by (simp add: keys_ok_def)
  from run_keeps_flag [OF this all, of xs] assms(4,5) have c1: "reminder_sent v'"
    by simp
  have c2: "map reminder_sent (vaccinations (snd (vaccinationsRouter_put uid i rq db))) =
           map reminder_sent (vaccinations db)"
    by (simp add: vaccinationsRouter_put_flags)
  have c3: "list_all2 (\<lambda>u w. vax_id w = vax_id u \<and> (reminder_sent u \<longrightarrow> reminder_sent w))
           (vaccinations db) (vaccinations (snd (daily_job now db)))"
    by (simp add: daily_job_snd foldl_mark_vaccinations list_all2_map2 list_all2_same)
  from c1 c2 c3 show ?thesis by (intro conjI)
qed

theorem reminder_flag_is_one_way_witness:
  "keys_ok demo_store_reminded \<and>
   map vax_id (vaccinations (run demo_history demo_store_reminded)) = [2, 6] \<and>
   reminder_sent (hd (vaccinations (run demo_history demo_store_reminded)))"
proof -
  have k: "keys_ok demo_store_reminded"
    by (simp add: keys_ok_def demo_store_reminded_def demo_store_def demo_vaccination_def
        demo_dog_def)
  have ids: "map vax_id (vaccinations (run demo_history demo_store_reminded)) = [2, 6]"
    by (simp add: demo_history_def demo_store_reminded_def demo_store_def demo_vaccination_def
        demo_dog_def demo_event_def scenario_dog_request_def demo_vaccination_request_def
        vaccinationsRouter_put_def vaccinationsRouter_post_def dogsRouter_post_def
        insert_yearly_event_def owned_vaccination_def owned_dog_def first_row_def uuidv4_def
        Let_def truthy_def truthy_number_def or_default_def or_null_def check_gender_def
        coalesce_def coalesce_opt_def daily_job_snd foldl_mark_vaccinations)
  then obtain a b where ab: "vaccinations (run demo_history demo_store_reminded) = [a, b]"
    "vax_id a = 2"
    by (auto simp: map_eq_Cons_conv)
  have m: "demo_vaccination\<lparr>reminder_sent := True\<rparr> \<in> set (vaccinations demo_store_reminded)"
    "reminder_sent (demo_vaccination\<lparr>reminder_sent := True\<rparr>)"
    by (simp_all add: demo_store_reminded_def)
  have "a \<in> set (vaccinations (run demo_history demo_store_reminded))"
    "vax_id a = vax_id (demo_vaccination\<lparr>reminder_sent := True\<rparr>)"
    using ab by (simp_all add: demo_vaccination_def)
  from reminder_flag_is_one_way [OF k m this] have "reminder_sent a"
    by (rule conjunct1)
  with k ids ab(1) show ?thesis
    by simp
qed

section \<open>Ownership\<close>

lemma first_row_None: "first_row xs = None \<longleftrightarrow> xs = []"
  by (simp add: first_row_def split: list.splits)

lemma owned_dog_None_iff:
  "owned_dog i uid db = None \<longleftrightarrow>
     (\<forall>d \<in> set (dogs db). dog_id d = i \<longrightarrow> dog_user_id d \<noteq> uid)"
  by (simp add: owned_dog_def first_row_None filter_empty_conv)

lemma owned_vaccination_None:
  assumes "\<forall>v \<in> set (vaccinations db). vax_id v = k \<longrightarrow> owned_dog (vax_dog_id v) uid db = None"
  shows "owned_vaccination k uid db = None"
proof -
  have no: "\<not> (vax_dog_id v = dog_id d \<and> vax_id v = k \<and> dog_user_id d = uid)"
    if "v \<in> set (vaccinations db)" "d \<in> set (dogs db)" for v d
  proof
    assume a: "vax_dog_id v = dog_id d \<and> vax_id v = k \<and> dog_user_id d = uid"
    then have "vax_id v = k" by (rule conjunct1 [OF conjunct2])
    with assms that(1) have "owned_dog (vax_dog_id v) uid db = None"
      by blast
    then have "dog_id d = vax_dog_id v \<longrightarrow> dog_user_id d \<noteq> uid"
      unfolding owned_dog_None_iff using that(2) by (rule bspec)
    with a show False by simp
  qed
  have "set [v. v \<leftarrow> vaccinations db, d \<leftarrow> dogs db, vax_dog_id v = dog_id d,
            vax_id v = k \<and> dog_user_id d = uid] = {}"
    unfolding set_join using no by blast
  then have "[v. v \<leftarrow> vaccinations db, d \<leftarrow> dogs db, vax_dog_id v = dog_id d,
            vax_id v = k \<and> dog_user_id d = uid] = []"
    by (simp only: set_empty)
  then show ?thesis
    unfolding owned_vaccination_def first_row_None .
qed

lemma owned_dog_foreign:
  assumes "d \<in> set (dogs db)" and "dog_id d = i" and "dog_user_id d \<noteq> uid"
      and "distinct (map dog_id (dogs db))"
  shows "owned_dog i uid db = None"
proof -
  from assms(4) have "inj_on dog_id (set (dogs db))"
    by (simp add: distinct_map)
  with assms(1,2,3) show ?thesis
    unfolding owned_dog_None_iff by (auto dest: inj_onD)
qed

lemma owned_dog_absent: "i \<notin> dog_id ` set (dogs db) \<Longrightarrow> owned_dog i uid db = None"
  unfolding owned_dog_None_iff by auto

text \<open>What each handler answers when the caller owns no dog of the id addressed.\<close>

lemma not_owned_responses:
  assumes "owned_dog i uid db = None"
  shows "dogsRouter_get uid i db = \<lparr>status = 404, body = ErrorJ ''Dog not found''\<rparr>"
    and "dogsRouter_delete uid i db = (\<lparr>status = 404, body = ErrorJ ''Dog not found''\<rparr>, db)"
    and "vaccinationsRouter_get_dog uid i now db =
           \<lparr>status = 404, body = ErrorJ ''Dog not found''\<rparr>"
    and "eventsRouter_get_dog uid i db = \<lparr>status = 404, body = ErrorJ ''Dog not found''\<rparr>"
  using assms
  by (simp_all add: dogsRouter_get_def dogsRouter_delete_def vaccinationsRouter_get_dog_def
      eventsRouter_get_dog_def)

lemma not_owned_posts:
  assumes "owned_dog i uid db = None"
  shows "vq_dog_id vq = Some i \<Longrightarrow>
           vaccinationsRouter_post uid vq db =
             (if vq_date_administered vq \<noteq> None \<and> truthy (vq_vaccine_name vq)
              then \<lparr>status = 404, body = ErrorJ ''Dog not found''\<rparr>
              else \<lparr>status = 400,
                    body = ErrorJ ''dog_id, vaccine_name, and date_administered are required''\<rparr>,
              db)"
    and "eq_dog_id eq = Some i \<Longrightarrow>
           eventsRouter_post uid eq db =
             (if eq_event_date eq \<noteq> None \<and> truthy (eq_title eq)
              then \<lparr>status = 404, body = ErrorJ ''Dog not found''\<rparr>
              else \<lparr>status = 400, body = ErrorJ ''Title and event_date are required''\<rparr>,
              db)"
    and "mq_dog_id mq = Some i \<Longrightarrow>
           healthRouter_post_medication uid mq db =
             (if mq_start_date mq \<noteq> None \<and> truthy (mq_name mq)
              then \<lparr>status = 404, body = ErrorJ ''Dog not found''\<rparr>
              else \<lparr>status = 400, body = ErrorJ ''dog_id, name, and start_date are required''\<rparr>,
              db)"
  using assms
  by (auto simp: vaccinationsRouter_post_def eventsRouter_post_def
      healthRouter_post_medication_def Let_def uuidv4_def
      split: option.splits)

lemma not_owned_vaccination_responses:
  assumes "owned_vaccination k uid db = None"
  shows "vaccinationsRouter_put uid k vu db =
           (\<lparr>status = 404, body = ErrorJ ''Vaccination record not found''\<rparr>, db)"
    and "vaccinationsRouter_delete uid k db =
           (\<lparr>status = 404, body = ErrorJ ''Vaccination record not found''\<rparr>, db)"
  using assms by (simp_all add: vaccinationsRouter_put_def vaccinationsRouter_delete_def)

text \<open>
  The same for a dog of another user and for a dog that does not exist: the handlers of
  the dog, vaccination, event and medication routes look the dog up with the caller as
  owner, and answer alike in both cases.
\<close>

lemma not_owned_looks_absent:
  assumes "d \<in> set (dogs db)" and "dog_id d = i" and "dog_user_id d \<noteq> uid"
      and "distinct (map dog_id (dogs db))" and "j \<notin> dog_id ` set (dogs db)"
  shows "dogsRouter_get uid i db = dogsRouter_get uid j db"
    and "dogsRouter_get uid i db = \<lparr>status = 404, body = ErrorJ ''Dog not found''\<rparr>"
    and "fst (dogsRouter_delete uid i db) = fst (dogsRouter_delete uid j db)"
    and "vaccinationsRouter_get_dog uid i now db = vaccinationsRouter_get_dog uid j now db"
    and "eventsRouter_get_dog uid i db = eventsRouter_get_dog uid j db"
    and "vaccinationsRouter_post uid (vq\<lparr>vq_dog_id := Some i\<rparr>) db =
           vaccinationsRouter_post uid (vq\<lparr>vq_dog_id := Some j\<rparr>) db"
    and "eventsRouter_post uid (eq\<lparr>eq_dog_id := Some i\<rparr>) db =
           eventsRouter_post uid (eq\<lparr>eq_dog_id := Some j\<rparr>) db"
    and "healthRouter_post_medication uid (mq\<lparr>mq_dog_id := Some i\<rparr>) db =
           healthRouter_post_medication uid (mq\<lparr>mq_dog_id := Some j\<rparr>) db"
proof -
  have o1: "owned_dog i uid db = None"
    using assms(1-4) by (rule owned_dog_foreign)
  have o2: "owned_dog j uid db = None"
    using assms(5) by (rule owned_dog_absent)
  show "dogsRouter_get uid i db = dogsRouter_get uid j db"
    and "dogsRouter_get uid i db = \<lparr>status = 404, body = ErrorJ ''Dog not found''\<rparr>"
    and "fst (dogsRouter_delete uid i db) = fst (dogsRouter_delete uid j db)"
    and "vaccinationsRouter_get_dog uid i now db = vaccinationsRouter_get_dog uid j now db"
    and "eventsRouter_get_dog uid i db = eventsRouter_get_dog uid j db"
    by (simp_all add: not_owned_responses [OF o1] not_owned_responses [OF o2])
  show "vaccinationsRouter_post uid (vq\<lparr>vq_dog_id := Some i\<rparr>) db =
           vaccinationsRouter_post uid (vq\<lparr>vq_dog_id := Some j\<rparr>) db"
    by (simp add: not_owned_posts(1) [OF o1] not_owned_posts(1) [OF o2])
  show "eventsRouter_post uid (eq\<lparr>eq_dog_id := Some i\<rparr>) db =
           eventsRouter_post uid (eq\<lparr>eq_dog_id := Some j\<rparr>) db"
    by (simp add: not_owned_posts(2) [OF o1] not_owned_posts(2) [OF o2])
  show "healthRouter_post_medication uid (mq\<lparr>mq_dog_id := Some i\<rparr>) db =
           healthRouter_post_medication uid (mq\<lparr>mq_dog_id := Some j\<rparr>) db"
    by (simp add: not_owned_posts(3) [OF o1] not_owned_posts(3) [OF o2])
qed

text \<open>
  Claim C8, at an input where the code departs from it. The claim says that a caller
  cannot tell a dog of another user from a dog that does not exist. In the example
  store dog 1, Rex, belongs to user 0, and no dog has id 9. To user 7 the dog route
  answers 404 with the same body for both ids. But user 7 may put a question to
  \<^verbatim>\<open>POST /api/ai/ask\<close> under either id: the answer is 200, the id is stored unchecked,
  and \<^verbatim>\<open>GET /api/ai/history\<close> then shows the question with the name Rex for id 1 and
  with no name for id 9.
\<close>

theorem foreign_dog_name_in_history:
  "map (\<lambda>d. (dog_id d, dog_user_id d, dog_name d)) (dogs demo_store) = [(1, 0, ''Rex'')] \<and>
   dogsRouter_get 7 1 demo_store = \<lparr>status = 404, body = ErrorJ ''Dog not found''\<rparr> \<and>
   dogsRouter_get 7 9 demo_store = \<lparr>status = 404, body = ErrorJ ''Dog not found''\<rparr> \<and>
   fst (aiRouter_post_ask demo_askQuestion 7 demo_ask_request demo_now demo_store) =
     \<lparr>status = 200, body = AnswerJ ''Plain cooked rice is safe.''\<rparr> \<and>
   fst (aiRouter_post_ask demo_askQuestion 7 absent_dog_ask_request demo_now demo_store) =
     \<lparr>status = 200, body = AnswerJ ''Plain cooked rice is safe.''\<rparr> \<and>
   aiRouter_get_history 7 None None
     (snd (aiRouter_post_ask demo_askQuestion 7 demo_ask_request demo_now demo_store)) =
     \<lparr>status = 200,
      body = HistoryJ
        [(\<lparr>aq_id = 4, aq_user_id = 7, aq_dog_id = Some 1, aq_query = ''Is rice safe?'',
           aq_response = ''Plain cooked rice is safe.'', aq_created_at = demo_now\<rparr>,
          Some ''Rex'')]\<rparr> \<and>
   aiRouter_get_history 7 None None
     (snd (aiRouter_post_ask demo_askQuestion 7 absent_dog_ask_request demo_now demo_store)) =
     \<lparr>status = 200,
      body = HistoryJ
        [(\<lparr>aq_id = 4, aq_user_id = 7, aq_dog_id = Some 9, aq_query = ''Is rice safe?'',
           aq_response = ''Plain cooked rice is safe.'', aq_created_at = demo_now\<rparr>,
          None)]\<rparr>"
proof -
  have h: "demo_dog \<in> set (dogs demo_store)" "dog_id demo_dog = 1" "dog_user_id demo_dog \<noteq> 7"
    "distinct (map dog_id (dogs demo_store))" "9 \<notin> dog_id ` set (dogs demo_store)"
    by (simp_all add: demo_store_def demo_dog_def)
  have c0: "map (\<lambda>d. (dog_id d, dog_user_id d, dog_name d)) (dogs demo_store) =
      [(1, 0, ''Rex'')]"
    by (simp add: demo_store_def demo_dog_def)
  have c1: "dogsRouter_get 7 1 demo_store = \<lparr>status = 404, body = ErrorJ ''Dog not found''\<rparr>"
    by (rule not_owned_looks_absent(2) [OF h])
  have c2: "dogsRouter_get 7 9 demo_store = \<lparr>status = 404, body = ErrorJ ''Dog not found''\<rparr>"
    using not_owned_looks_absent(1) [OF h] c1 by simp
  have t: "demo_now\<lparr>inst_ms := inst_ms demo_now div 1000 * 1000\<rparr> = demo_now"
    by (simp add: demo_now_def)
  have s1: "aiRouter_post_ask demo_askQuestion 7 demo_ask_request demo_now demo_store =
      (\<lparr>status = 200, body = AnswerJ ''Plain cooked rice is safe.''\<rparr>,
       demo_store\<lparr>next_uuid := 5, ai_queries :=
         [\<lparr>aq_id = 4, aq_user_id = 7, aq_dog_id = Some 1, aq_query = ''Is rice safe?'',
           aq_response = ''Plain cooked rice is safe.'', aq_created_at = demo_now\<rparr>]\<rparr>)"
    unfolding aiRouter_post_ask_def t
    by (simp add: demo_ask_request_def demo_askQuestion_def truthy_def or_default_def
        owned_dog_def first_row_def demo_store_def demo_dog_def uuidv4_def Let_def)
  have s2: "aiRouter_post_ask demo_askQuestion 7 absent_dog_ask_request demo_now demo_store =
      (\<lparr>status = 200, body = AnswerJ ''Plain cooked rice is safe.''\<rparr>,
       demo_store\<lparr>next_uuid := 5, ai_queries :=
         [\<lparr>aq_id = 4, aq_user_id = 7, aq_dog_id = Some 9, aq_query = ''Is rice safe?'',
           aq_response = ''Plain cooked rice is safe.'', aq_created_at = demo_now\<rparr>]\<rparr>)"
    unfolding aiRouter_post_ask_def t
    by (simp add: absent_dog_ask_request_def demo_askQuestion_def truthy_def or_default_def
        owned_dog_def first_row_def demo_store_def demo_dog_def uuidv4_def Let_def)
  have c3: "fst (aiRouter_post_ask demo_askQuestion 7 demo_ask_request demo_now demo_store) =
     \<lparr>status = 200, body = AnswerJ ''Plain cooked rice is safe.''\<rparr>"
    by (simp add: s1)
  have c4: "fst (aiRouter_post_ask demo_askQuestion 7 absent_dog_ask_request demo_now demo_store)
      = \<lparr>status = 200, body = AnswerJ ''Plain cooked rice is safe.''\<rparr>"
    by (simp add: s2)
  have c5: "aiRouter_get_history 7 None None
     (snd (aiRouter_post_ask demo_askQuestion 7 demo_ask_request demo_now demo_store)) =
     \<lparr>status = 200,
      body = HistoryJ
        [(\<lparr>aq_id = 4, aq_user_id = 7, aq_dog_id = Some 1, aq_query = ''Is rice safe?'',
           aq_response = ''Plain cooked rice is safe.'', aq_created_at = demo_now\<rparr>,
          Some ''Rex'')]\<rparr>"
    unfolding s1
    by (simp add: aiRouter_get_history_def left_join_query_dog_name_def order_by_def Let_def
        demo_store_def demo_dog_def)
  have c6: "aiRouter_get_history 7 None None
     (snd (aiRouter_post_ask demo_askQuestion 7 absent_dog_ask_request demo_now demo_store)) =
     \<lparr>status = 200,
      body = HistoryJ
        [(\<lparr>aq_id = 4, aq_user_id = 7, aq_dog_id = Some 9, aq_query = ''Is rice safe?'',
           aq_response = ''Plain cooked rice is safe.'', aq_created_at = demo_now\<rparr>,
          None)]\<rparr>"
    unfolding s2
    by (simp add: aiRouter_get_history_def left_join_query_dog_name_def order_by_def Let_def
        demo_store_def demo_dog_def)
  from c0 c1 c2 c3 c4 c5 c6 show ?thesis
    by (intro conjI)
qed

end
